theory Spec2Isabelle
  imports Main
begin

section \<open>The RabbitMQ publisher of the payment service\<close>

text \<open>
  A shallow embedding of \<^verbatim>\<open>src/payment/rabbitmq.py\<close>: the class \<^verbatim>\<open>Publisher\<close> with its
  constructor and the methods \<^verbatim>\<open>_connect\<close>, \<^verbatim>\<open>publish\<close> and \<^verbatim>\<open>close\<close>.
  The process environment is a map from names to values, the object is a record, and the
  broker library (pika) is a store of connection and channel objects together with the
  trace of the calls that reached it. A method takes the object and the store and returns
  both; an exception is the left summand and carries the state at the raise.
\<close>

subsection \<open>Python values\<close>

type_synonym environ = "string \<rightharpoonup> string"

type_synonym bytes = "char list"

type_synonym 'h headers = "(string \<times> 'h) list"

datatype py_error =
    RuntimeError string
  | TypeError
  | AttributeError
  | AMQPConnectionError
  | ConnectionWrongStateError
  | ChannelWrongStateError

text \<open>\<^verbatim>\<open>os.getenv(k)\<close> is \<^verbatim>\<open>None\<close> for an absent name; \<^verbatim>\<open>os.getenv(k, d)\<close> is \<open>d\<close> then.\<close>

definition getenv :: "environ \<Rightarrow> string \<Rightarrow> string option" where
  "getenv env k = env k"

definition getenv_default :: "environ \<Rightarrow> string \<Rightarrow> string \<Rightarrow> string" where
  "getenv_default env k d = (case env k of None \<Rightarrow> d | Some v \<Rightarrow> v)"

text \<open>Truth value of an optional string: \<^verbatim>\<open>None\<close> and the empty string are false.\<close>

definition truthy :: "string option \<Rightarrow> bool" where
  "truthy v = (case v of None \<Rightarrow> False | Some s \<Rightarrow> s \<noteq> [])"

text \<open>\<^verbatim>\<open>sep.join(xs)\<close>.\<close>

fun join :: "string \<Rightarrow> string list \<Rightarrow> string" where
  "join sep [] = []"
| "join sep [x] = x"
| "join sep (x # y # ys) = x @ sep @ join sep (y # ys)"

text \<open>\<^verbatim>\<open>headers or {}\<close>: an absent argument and an empty mapping both give the empty mapping.\<close>

definition headers_or_empty :: "'h headers option \<Rightarrow> 'h headers" where
  "headers_or_empty headers =
     (case headers of None \<Rightarrow> [] | Some h \<Rightarrow> if h = [] then [] else h)"

subsection \<open>The object\<close>

record connection_parameters =
  host :: string
  virtual_host :: string
  credentials :: "string \<times> string"
  heartbeat :: int
  blocked_connection_timeout :: int

text \<open>
  The fields of a \<^verbatim>\<open>Publisher\<close>. \<^verbatim>\<open>_conn\<close> and \<^verbatim>\<open>_channel\<close> hold \<^verbatim>\<open>None\<close> or a reference
  into the store; \<^verbatim>\<open>TYPE\<close> is written \<open>TYPE'\<close>. The logger is the trace of the store.
\<close>

record publisher =
  HOST :: string
  USER :: string
  PASS :: string
  VIRTUAL_HOST :: string
  EXCHANGE :: string
  TYPE' :: string
  ROUTING_KEY :: string
  params :: connection_parameters
  conn :: "nat option"
  channel :: "nat option"

text \<open>
  The constructor (lines 6 to 37). The three required values are read as optional strings;
  the object exists only when none of them is false, so the fields hold the strings.
\<close>

definition Publisher_init :: "environ \<Rightarrow> py_error + publisher" where
  "Publisher_init env =
     (let host = getenv env ''AMQP_HOST'';
          user = getenv env ''AMQP_USER'';
          pass = getenv env ''AMQP_PASS'';
          vhost = getenv_default env ''AMQP_VHOST'' ''/'';
          exchange = getenv_default env ''AMQP_EXCHANGE'' ''robot-shop'';
          type = getenv_default env ''AMQP_EXCHANGE_TYPE'' ''direct'';
          routing_key = getenv_default env ''AMQP_ROUTING_KEY'' ''orders'';
          missing = map fst (filter (\<lambda>(k, v). \<not> truthy v)
                      [(''AMQP_HOST'', host), (''AMQP_USER'', user), (''AMQP_PASS'', pass)])
      in if missing \<noteq> []
         then Inl (RuntimeError (''Missing RabbitMQ env vars: '' @ join '', '' missing))
         else Inr \<lparr>HOST = the host, USER = the user, PASS = the pass,
                   VIRTUAL_HOST = vhost, EXCHANGE = exchange, TYPE' = type,
                   ROUTING_KEY = routing_key,
                   params = \<lparr>host = the host, virtual_host = vhost,
                              credentials = (the user, the pass),
                              heartbeat = 30, blocked_connection_timeout = 30\<rparr>,
                   conn = None, channel = None\<rparr>)"

subsection \<open>The broker library\<close>

text \<open>
  What reaches the library is recorded in order: a connection opened with its parameters, a
  channel opened on a connection, an exchange declared on a channel (name, type, durable),
  a message published on a channel (exchange, routing key, body, headers), a connection
  closed, and a line given to the logger.
\<close>

datatype 'h event =
    ConnectionOpened nat connection_parameters
  | ChannelOpened nat nat
  | ExchangeDeclared nat string string bool
  | BasicPublish nat string string bytes "'h headers"
  | ConnectionClosed nat
  | LogInfo string

text \<open>
  The store: whether the broker accepts a new connection, for every connection created so
  far whether it is open, for every channel its connection and whether it is open, and the
  trace. A reference is an index; a new object takes the next index.
\<close>

record 'h world =
  reachable :: bool
  conns :: "bool list"
  chans :: "(nat \<times> bool) list"
  trace :: "'h event list"

text \<open>
  \<^verbatim>\<open>is_open\<close> and \<^verbatim>\<open>is_closed\<close> of a blocking connection, which is either open or closed
  between two calls, and \<^verbatim>\<open>is_open\<close> of a channel.
\<close>

definition conn_is_open :: "'h world \<Rightarrow> nat \<Rightarrow> bool" where
  "conn_is_open w c = (c < length (conns w) \<and> conns w ! c)"

definition conn_is_closed :: "'h world \<Rightarrow> nat \<Rightarrow> bool" where
  "conn_is_closed w c = (\<not> conn_is_open w c)"

definition chan_is_open :: "'h world \<Rightarrow> nat \<Rightarrow> bool" where
  "chan_is_open w ch = (ch < length (chans w) \<and> snd (chans w ! ch))"

text \<open>\<^verbatim>\<open>logger.info(line)\<close>.\<close>

definition logger_info :: "string \<Rightarrow> 'h world \<Rightarrow> 'h world" where
  "logger_info line w = w\<lparr>trace := trace w @ [LogInfo line]\<rparr>"

text \<open>
  \<^verbatim>\<open>pika.BlockingConnection(params)\<close> returns a new open connection, or raises when the
  broker does not accept it.
\<close>

definition BlockingConnection ::
  "connection_parameters \<Rightarrow> 'h world \<Rightarrow> py_error + (nat \<times> 'h world)" where
  "BlockingConnection ps w =
     (if reachable w
      then Inr (length (conns w),
                w\<lparr>conns := conns w @ [True],
                  trace := trace w @ [ConnectionOpened (length (conns w)) ps]\<rparr>)
      else Inl AMQPConnectionError)"

text \<open>\<^verbatim>\<open>conn.channel()\<close> returns a new open channel of an open connection.\<close>

definition conn_channel :: "nat \<Rightarrow> 'h world \<Rightarrow> py_error + (nat \<times> 'h world)" where
  "conn_channel c w =
     (if conn_is_open w c
      then Inr (length (chans w),
                w\<lparr>chans := chans w @ [(c, True)],
                  trace := trace w @ [ChannelOpened c (length (chans w))]\<rparr>)
      else Inl ConnectionWrongStateError)"

text \<open>\<^verbatim>\<open>channel.exchange_declare(...)\<close> and \<^verbatim>\<open>channel.basic_publish(...)\<close> need an open channel.\<close>

definition exchange_declare ::
  "nat \<Rightarrow> string \<Rightarrow> string \<Rightarrow> bool \<Rightarrow> 'h world \<Rightarrow> py_error + 'h world" where
  "exchange_declare ch exchange exchange_type durable w =
     (if chan_is_open w ch
      then Inr (w\<lparr>trace := trace w @ [ExchangeDeclared ch exchange exchange_type durable]\<rparr>)
      else Inl ChannelWrongStateError)"

definition basic_publish ::
  "nat \<Rightarrow> string \<Rightarrow> string \<Rightarrow> bytes \<Rightarrow> 'h headers \<Rightarrow> 'h world \<Rightarrow> py_error + 'h world" where
  "basic_publish ch exchange routing_key body hdrs w =
     (if chan_is_open w ch
      then Inr (w\<lparr>trace := trace w @ [BasicPublish ch exchange routing_key body hdrs]\<rparr>)
      else Inl ChannelWrongStateError)"

text \<open>
  \<^verbatim>\<open>conn.close()\<close> closes an open connection and the channels on it, and raises on a
  connection that is not open.
\<close>

definition conn_close :: "nat \<Rightarrow> 'h world \<Rightarrow> py_error + 'h world" where
  "conn_close c w =
     (if conn_is_open w c
      then Inr (w\<lparr>conns := (conns w)[c := False],
                  chans := map (\<lambda>(c', opn). (c', opn \<and> c' \<noteq> c)) (chans w),
                  trace := trace w @ [ConnectionClosed c]\<rparr>)
      else Inl ConnectionWrongStateError)"

text \<open>
  What the broker does on its own between two calls: it closes a channel (a channel-level
  error) and leaves the connection open, or the connection is lost with its channels.
\<close>

definition channel_closed_by_broker :: "nat \<Rightarrow> 'h world \<Rightarrow> 'h world" where
  "channel_closed_by_broker ch w =
     w\<lparr>chans := map (\<lambda>(i, (c, opn)). (c, opn \<and> i \<noteq> ch)) (enumerate 0 (chans w))\<rparr>"

definition connection_lost :: "nat \<Rightarrow> 'h world \<Rightarrow> 'h world" where
  "connection_lost c w =
     w\<lparr>conns := (conns w)[c := False],
       chans := map (\<lambda>(c', opn). (c', opn \<and> c' \<noteq> c)) (chans w)\<rparr>"

subsection \<open>The methods\<close>

type_synonym 'h result = "(py_error \<times> publisher \<times> 'h world) + (publisher \<times> 'h world)"

text \<open>The state a call leaves behind, whether it returned or raised.\<close>

fun final_state :: "'h result \<Rightarrow> publisher \<times> 'h world" where
  "final_state (Inl (e, s)) = s"
| "final_state (Inr s) = s"

text \<open>The test \<^verbatim>\<open>not self._conn or self._conn.is_closed\<close> of lines 40 and 53.\<close>

definition no_open_conn :: "publisher \<Rightarrow> 'h world \<Rightarrow> bool" where
  "no_open_conn p w = (case conn p of None \<Rightarrow> True | Some c \<Rightarrow> conn_is_closed w c)"

text \<open>\<^verbatim>\<open>_connect\<close> (lines 39 to 50).\<close>

definition connect :: "publisher \<Rightarrow> 'h world \<Rightarrow> 'h result" where
  "connect p w =
     (if no_open_conn p w then
        (case BlockingConnection (params p) w of
           Inl e \<Rightarrow> Inl (e, p, w)
         | Inr (c, w1) \<Rightarrow>
             let p1 = p\<lparr>conn := Some c\<rparr> in
             (case conn_channel c w1 of
                Inl e \<Rightarrow> Inl (e, p1, w1)
              | Inr (ch, w2) \<Rightarrow>
                  let p2 = p1\<lparr>channel := Some ch\<rparr> in
                  (case exchange_declare ch (EXCHANGE p2) (TYPE' p2) True w2 of
                     Inl e \<Rightarrow> Inl (e, p2, w2)
                   | Inr w3 \<Rightarrow>
                       Inr (p2, logger_info (''connected to broker '' @ HOST p2
                                             @ '' vhost='' @ VIRTUAL_HOST p2) w3))))
      else Inr (p, w))"

text \<open>
  \<^verbatim>\<open>publish\<close> (lines 52 to 63). \<^verbatim>\<open>json.dumps\<close> and \<^verbatim>\<open>str.encode\<close> are the parameters \<open>dumps\<close>
  and \<open>encode\<close>; \<open>dumps\<close> raises on a value that has no JSON form. The attribute
  \<^verbatim>\<open>self._channel.basic_publish\<close> is looked up before the arguments are evaluated.
\<close>

definition publish ::
  "('m \<Rightarrow> py_error + string) \<Rightarrow> (string \<Rightarrow> bytes) \<Rightarrow> publisher \<Rightarrow> 'h world \<Rightarrow> 'm
     \<Rightarrow> 'h headers option \<Rightarrow> 'h result" where
  "publish dumps encode p w msg headers =
     (case (if no_open_conn p w then connect p w else Inr (p, w)) of
        Inl err \<Rightarrow> Inl err
      | Inr (p1, w1) \<Rightarrow>
          (case channel p1 of
             None \<Rightarrow> Inl (AttributeError, p1, w1)
           | Some ch \<Rightarrow>
               (case dumps msg of
                  Inl e \<Rightarrow> Inl (e, p1, w1)
                | Inr s \<Rightarrow>
                    (case basic_publish ch (EXCHANGE p1) (ROUTING_KEY p1) (encode s)
                            (headers_or_empty headers) w1 of
                       Inl e \<Rightarrow> Inl (e, p1, w1)
                     | Inr w2 \<Rightarrow> Inr (p1, logger_info ''message sent to queue'' w2)))))"

text \<open>\<^verbatim>\<open>close\<close> (lines 65 to 67).\<close>

definition close :: "publisher \<Rightarrow> 'h world \<Rightarrow> 'h result" where
  "close p w =
     (case conn p of
        None \<Rightarrow> Inr (p, w)
      | Some c \<Rightarrow>
          if conn_is_open w c
          then (case conn_close c w of Inl e \<Rightarrow> Inl (e, p, w) | Inr w1 \<Rightarrow> Inr (p, w1))
          else Inr (p, w))"

subsection \<open>Notions used in the statements\<close>

text \<open>The keys of the dictionary of lines 19 to 23, in its order.\<close>

definition required_vars :: "string list" where
  "required_vars = [''AMQP_HOST'', ''AMQP_USER'', ''AMQP_PASS'']"

text \<open>The required names that are absent from the environment.\<close>

definition unset_vars :: "environ \<Rightarrow> string list" where
  "unset_vars env = filter (\<lambda>k. env k = None) required_vars"

text \<open>The required names that are absent or hold the empty string.\<close>

definition missing_vars :: "environ \<Rightarrow> string list" where
  "missing_vars env = filter (\<lambda>k. env k = None \<or> env k = Some []) required_vars"

text \<open>The library calls of a connect sequence, and the messages given to the broker.\<close>

fun connect_step :: "'h event \<Rightarrow> bool" where
  "connect_step (ConnectionOpened c ps) = True"
| "connect_step (ChannelOpened c ch) = True"
| "connect_step (ExchangeDeclared ch ex ty d) = True"
| "connect_step e = False"

definition connect_steps :: "'h event list \<Rightarrow> 'h event list" where
  "connect_steps es = filter connect_step es"

fun is_publish :: "'h event \<Rightarrow> bool" where
  "is_publish (BasicPublish ch ex rk body hdrs) = True"
| "is_publish e = False"

definition published :: "'h event list \<Rightarrow> 'h event list" where
  "published es = filter is_publish es"

text \<open>
  The object and the store after a connect sequence that succeeded: the new connection and
  the new channel take the next indices, and the trace grows by the three library calls
  and the line of the logger.
\<close>

definition after_connect :: "publisher \<Rightarrow> 'h world \<Rightarrow> publisher \<times> 'h world" where
  "after_connect p w =
     (p\<lparr>conn := Some (length (conns w)), channel := Some (length (chans w))\<rparr>,
      w\<lparr>conns := conns w @ [True],
        chans := chans w @ [(length (conns w), True)],
        trace := trace w @
          [ConnectionOpened (length (conns w)) (params p),
           ChannelOpened (length (conns w)) (length (chans w)),
           ExchangeDeclared (length (chans w)) (EXCHANGE p) (TYPE' p) True,
           LogInfo (''connected to broker '' @ HOST p @ '' vhost='' @ VIRTUAL_HOST p)]\<rparr>)"

text \<open>The store after a message was given to an open channel and the logger was told.\<close>

definition after_send ::
  "publisher \<Rightarrow> nat \<Rightarrow> bytes \<Rightarrow> 'h headers \<Rightarrow> 'h world \<Rightarrow> 'h world" where
  "after_send p ch body hdrs w =
     w\<lparr>trace := trace w @
          [BasicPublish ch (EXCHANGE p) (ROUTING_KEY p) body hdrs,
           LogInfo ''message sent to queue'']\<rparr>"

subsection \<open>Sample inputs\<close>

text \<open>
  Environments: all three required names set; none set; the user set to the empty string
  and the password absent; the host set to the empty string; some optional names set.
\<close>

definition env_ok :: environ where
  "env_ok = [''AMQP_HOST'' \<mapsto> ''rabbitmq'', ''AMQP_USER'' \<mapsto> ''guest'',
             ''AMQP_PASS'' \<mapsto> ''secret'']"

definition env_none :: environ where
  "env_none = Map.empty"

definition env_user_empty :: environ where
  "env_user_empty = [''AMQP_HOST'' \<mapsto> ''rabbitmq'', ''AMQP_USER'' \<mapsto> []]"

definition env_host_empty :: environ where
  "env_host_empty = [''AMQP_HOST'' \<mapsto> [], ''AMQP_USER'' \<mapsto> ''guest'',
                     ''AMQP_PASS'' \<mapsto> ''secret'']"

definition env_custom :: environ where
  "env_custom = [''AMQP_HOST'' \<mapsto> ''rabbitmq'', ''AMQP_USER'' \<mapsto> ''guest'',
                 ''AMQP_PASS'' \<mapsto> ''secret'', ''AMQP_EXCHANGE'' \<mapsto> ''shop'',
                 ''AMQP_VHOST'' \<mapsto> []]"

text \<open>The object the constructor builds from \<open>env_ok\<close>.\<close>

definition pub_ok :: publisher where
  "pub_ok = \<lparr>HOST = ''rabbitmq'', USER = ''guest'', PASS = ''secret'',
             VIRTUAL_HOST = ''/'', EXCHANGE = ''robot-shop'', TYPE' = ''direct'',
             ROUTING_KEY = ''orders'',
             params = \<lparr>host = ''rabbitmq'', virtual_host = ''/'',
                        credentials = (''guest'', ''secret''),
                        heartbeat = 30, blocked_connection_timeout = 30\<rparr>,
             conn = None, channel = None\<rparr>"

text \<open>A broker that accepts connections and has seen none yet.\<close>

definition world0 :: "string world" where
  "world0 = \<lparr>reachable = True, conns = [], chans = [], trace = []\<rparr>"

text \<open>
  The object and the store after the first publish of \<^verbatim>\<open>None\<close> from \<open>pub_ok\<close> and
  \<open>world0\<close>; that store after the broker closed channel 0; and after \<^verbatim>\<open>close()\<close>.
\<close>

definition pub_conn :: publisher where
  "pub_conn = pub_ok\<lparr>conn := Some 0, channel := Some 0\<rparr>"

definition world_conn :: "string world" where
  "world_conn =
     \<lparr>reachable = True, conns = [True], chans = [(0, True)],
      trace =
        [ConnectionOpened 0 (params pub_ok), ChannelOpened 0 0,
         ExchangeDeclared 0 ''robot-shop'' ''direct'' True,
         LogInfo ''connected to broker rabbitmq vhost=/'',
         BasicPublish 0 ''robot-shop'' ''orders'' ''null'' [],
         LogInfo ''message sent to queue'']\<rparr>"

definition world_chan_closed :: "string world" where
  "world_chan_closed = world_conn\<lparr>chans := [(0, False)]\<rparr>"

definition world_closed :: "string world" where
  "world_closed =
     world_conn\<lparr>conns := [False], chans := [(0, False)],
                 trace := trace world_conn @ [ConnectionClosed 0]\<rparr>"

text \<open>
  Messages for the examples, with their JSON text: \<^verbatim>\<open>None\<close>, a truth value, and an object
  that \<^verbatim>\<open>json.dumps\<close> rejects (a set, say). The text is ASCII, so its UTF-8 encoding is
  the text itself.
\<close>

datatype sample = PyNone | PyBool bool | PyObject

fun sample_dumps :: "sample \<Rightarrow> py_error + string" where
  "sample_dumps PyNone = Inr ''null''"
| "sample_dumps (PyBool b) = Inr (if b then ''true'' else ''false'')"
| "sample_dumps PyObject = Inl TypeError"

definition ascii_encode :: "string \<Rightarrow> bytes" where
  "ascii_encode s = s"

section \<open>Properties\<close>

subsection \<open>The constructor\<close>

lemma truthy_iff: "truthy v \<longleftrightarrow> v \<noteq> None \<and> v \<noteq> Some []"
  by (cases v) (simp_all add: truthy_def)

lemma missing_eq:
  "map fst (filter (\<lambda>(k, v). \<not> truthy v)
      [(''AMQP_HOST'', getenv env ''AMQP_HOST''), (''AMQP_USER'', getenv env ''AMQP_USER''),
       (''AMQP_PASS'', getenv env ''AMQP_PASS'')]) = missing_vars env"
  by (simp add: getenv_def missing_vars_def required_vars_def truthy_iff)

lemma init_raises:
  "missing_vars env \<noteq> [] \<Longrightarrow>
   Publisher_init env =
     Inl (RuntimeError (''Missing RabbitMQ env vars: '' @ join '', '' (missing_vars env)))"
  unfolding Publisher_init_def Let_def missing_eq by simp

lemma init_returns:
  "missing_vars env = [] \<Longrightarrow>
   Publisher_init env =
     Inr \<lparr>HOST = the (env ''AMQP_HOST''), USER = the (env ''AMQP_USER''),
          PASS = the (env ''AMQP_PASS''),
          VIRTUAL_HOST = getenv_default env ''AMQP_VHOST'' ''/'',
          EXCHANGE = getenv_default env ''AMQP_EXCHANGE'' ''robot-shop'',
          TYPE' = getenv_default env ''AMQP_EXCHANGE_TYPE'' ''direct'',
          ROUTING_KEY = getenv_default env ''AMQP_ROUTING_KEY'' ''orders'',
          params = \<lparr>host = the (env ''AMQP_HOST''),
                     virtual_host = getenv_default env ''AMQP_VHOST'' ''/'',
                     credentials = (the (env ''AMQP_USER''), the (env ''AMQP_PASS'')),
                     heartbeat = 30, blocked_connection_timeout = 30\<rparr>,
          conn = None, channel = None\<rparr>"
  unfolding Publisher_init_def Let_def missing_eq by (simp add: getenv_def)

lemma init_Inr_missing: "Publisher_init env = Inr p \<Longrightarrow> missing_vars env = []"
  using init_raises [of env] by (cases "missing_vars env = []") simp_all

lemma unset_subset_missing: "set (unset_vars env) \<subseteq> set (missing_vars env)"
  by (auto simp: unset_vars_def missing_vars_def)

lemma missing_vars_empty_iff:
  "missing_vars env = [] \<longleftrightarrow> (\<forall>k \<in> set required_vars. \<exists>v. env k = Some v \<and> v \<noteq> [])"
  by (auto simp: missing_vars_def filter_empty_conv)

text \<open>
  Claim C1, as amended. Whenever one of \<open>AMQP_HOST\<close>, \<open>AMQP_USER\<close>, \<open>AMQP_PASS\<close> is absent
  from the environment or holds the empty string, the constructor raises a
  \<open>RuntimeError\<close> whose message is the fixed prefix followed by the names of exactly the
  required variables that are absent or empty, all of them, in the order host, user,
  password, separated by a comma and a space. An absent required variable is always among
  the names listed.
\<close>

theorem Publisher_init_lists_missing:
  "(unset_vars env \<noteq> [] \<longrightarrow> missing_vars env \<noteq> []) \<and>
   set (unset_vars env) \<subseteq> set (missing_vars env) \<and>
   (missing_vars env \<noteq> [] \<longrightarrow>
      Publisher_init env =
        Inl (RuntimeError (''Missing RabbitMQ env vars: '' @ join '', '' (missing_vars env))))"
proof (intro conjI impI)
  show sub: "set (unset_vars env) \<subseteq> set (missing_vars env)"
    by (rule unset_subset_missing)
  show "missing_vars env \<noteq> []" if "unset_vars env \<noteq> []"
  proof
    assume "missing_vars env = []"
    with sub have "set (unset_vars env) = {}" by simp
    with that show False by simp
  qed
  show "Publisher_init env =
        Inl (RuntimeError (''Missing RabbitMQ env vars: '' @ join '', '' (missing_vars env)))"
    if "missing_vars env \<noteq> []"
    using that by (rule init_raises)
qed

theorem Publisher_init_lists_missing_witness:
  "unset_vars env_none \<noteq> [] \<and>
   missing_vars env_none = [''AMQP_HOST'', ''AMQP_USER'', ''AMQP_PASS''] \<and>
   Publisher_init env_none =
     Inl (RuntimeError ''Missing RabbitMQ env vars: AMQP_HOST, AMQP_USER, AMQP_PASS'')"
proof -
  have u: "unset_vars env_none \<noteq> []"
    by (simp add: unset_vars_def env_none_def required_vars_def)
  have m: "missing_vars env_none = [''AMQP_HOST'', ''AMQP_USER'', ''AMQP_PASS'']"
    by (simp add: missing_vars_def env_none_def required_vars_def)
  from Publisher_init_lists_missing [of env_none] u
  have "Publisher_init env_none =
     Inl (RuntimeError (''Missing RabbitMQ env vars: '' @ join '', '' (missing_vars env_none)))"
    by blast
  with u m show ?thesis by simp
qed

text \<open>
  Claim C1 as stated fails: with the host set, the user set to the empty string and the
  password absent, the only unset variable is \<open>AMQP_PASS\<close>, and the message names
  \<open>AMQP_USER\<close> as well.
\<close>

theorem Publisher_init_unset_only_counterexample:
  "unset_vars env_user_empty = [''AMQP_PASS''] \<and>
   Publisher_init env_user_empty =
     Inl (RuntimeError ''Missing RabbitMQ env vars: AMQP_USER, AMQP_PASS'') \<and>
   Publisher_init env_user_empty \<noteq>
     Inl (RuntimeError (''Missing RabbitMQ env vars: ''
                         @ join '', '' (unset_vars env_user_empty)))"
  by (simp add: unset_vars_def required_vars_def env_user_empty_def Publisher_init_def
      Let_def getenv_def truthy_def)

text \<open>
  Claim C9. A required variable that holds the empty string is treated as an absent one:
  the constructor raises the error that lists the missing names, that variable is among
  them, and the result is the one the constructor gives when the variable is removed from
  the environment.
\<close>

theorem empty_required_var_is_missing:
  assumes "k \<in> set required_vars" and "env k = Some []"
  shows "k \<in> set (missing_vars env) \<and>
         Publisher_init env =
           Inl (RuntimeError (''Missing RabbitMQ env vars: '' @ join '', '' (missing_vars env))) \<and>
         Publisher_init env = Publisher_init (env(k := None))"
proof -
  from assms have mem: "k \<in> set (missing_vars env)"
    by (simp add: missing_vars_def)
  then have ne: "missing_vars env \<noteq> []" by auto
  have same: "missing_vars (env(k := None)) = missing_vars env"
    unfolding missing_vars_def using assms(2) by (intro filter_cong) auto
  from ne have raise: "Publisher_init env =
      Inl (RuntimeError (''Missing RabbitMQ env vars: '' @ join '', '' (missing_vars env)))"
    by (rule init_raises)
  from ne same have "Publisher_init (env(k := None)) =
      Inl (RuntimeError (''Missing RabbitMQ env vars: '' @ join '', '' (missing_vars env)))"
    using init_raises [of "env(k := None)"] by simp
  with mem raise show ?thesis by simp
qed

theorem empty_required_var_is_missing_witness:
  "''AMQP_HOST'' \<in> set required_vars \<and> env_host_empty ''AMQP_HOST'' = Some [] \<and>
   Publisher_init env_host_empty = Inl (RuntimeError ''Missing RabbitMQ env vars: AMQP_HOST'') \<and>
   Publisher_init env_host_empty = Publisher_init (env_host_empty(''AMQP_HOST'' := None))"
proof -
  have k: "''AMQP_HOST'' \<in> set required_vars"
    by (simp add: required_vars_def)
  have e: "env_host_empty ''AMQP_HOST'' = Some []"
    by (simp add: env_host_empty_def)
  have m: "missing_vars env_host_empty = [''AMQP_HOST'']"
    by (simp add: missing_vars_def env_host_empty_def required_vars_def)
  from empty_required_var_is_missing [of "''AMQP_HOST''" env_host_empty, OF k e] k e m
  show ?thesis by auto
qed

text \<open>
  Claim C6, as amended. When all three required variables are set to non-empty values the
  constructor returns an object whose connection and channel are \<open>None\<close>. The constructor
  reads the environment only and has no access to the broker; in every state of the
  broker the new object counts as not connected, and closing it does nothing, so the
  first call that reaches the broker is the first publish.
\<close>

theorem Publisher_init_not_connected:
  assumes "\<forall>k \<in> set required_vars. \<exists>v. env k = Some v \<and> v \<noteq> []"
  shows "\<exists>p. Publisher_init env = Inr p \<and> conn p = None \<and> channel p = None \<and>
             (\<forall>w :: 'h world. no_open_conn p w \<and> close p w = Inr (p, w))"
proof -
  from assms have "missing_vars env = []"
    by (simp add: missing_vars_empty_iff)
  from init_returns [OF this] show ?thesis
    by (simp add: no_open_conn_def close_def)
qed

theorem Publisher_init_not_connected_witness:
  "env_ok ''AMQP_HOST'' = Some ''rabbitmq'' \<and> env_ok ''AMQP_USER'' = Some ''guest'' \<and>
   env_ok ''AMQP_PASS'' = Some ''secret'' \<and>
   Publisher_init env_ok = Inr pub_ok \<and> conn pub_ok = None \<and> channel pub_ok = None \<and>
   no_open_conn pub_ok world0 \<and> close pub_ok world0 = Inr (pub_ok, world0)"
proof -
  have h: "\<forall>k \<in> set required_vars. \<exists>v. env_ok k = Some v \<and> v \<noteq> []"
    by (simp add: required_vars_def env_ok_def)
  have i: "Publisher_init env_ok = Inr pub_ok"
    by (simp add: Publisher_init_def Let_def getenv_def getenv_default_def truthy_def
        env_ok_def pub_ok_def)
  have e: "env_ok ''AMQP_HOST'' = Some ''rabbitmq''" "env_ok ''AMQP_USER'' = Some ''guest''"
    "env_ok ''AMQP_PASS'' = Some ''secret''"
    by (simp_all add: env_ok_def)
  from Publisher_init_not_connected [OF h, where 'h = string] i e show ?thesis
    by auto
qed

text \<open>
  Claim C6 as stated fails: with all three required variables set and the host set to the
  empty string, the constructor raises.
\<close>

theorem Publisher_init_all_set_counterexample:
  "unset_vars env_host_empty = [] \<and>
   env_host_empty ''AMQP_HOST'' = Some [] \<and>
   env_host_empty ''AMQP_USER'' = Some ''guest'' \<and>
   env_host_empty ''AMQP_PASS'' = Some ''secret'' \<and>
   Publisher_init env_host_empty = Inl (RuntimeError ''Missing RabbitMQ env vars: AMQP_HOST'')"
  by (simp add: unset_vars_def required_vars_def env_host_empty_def Publisher_init_def
      Let_def getenv_def truthy_def)

text \<open>
  Claim C7. When the three required variables are set to non-empty values the constructor
  returns an object, and in it the virtual host, the exchange, the exchange type and the
  routing key are the values of \<open>AMQP_VHOST\<close>, \<open>AMQP_EXCHANGE\<close>, \<open>AMQP_EXCHANGE_TYPE\<close> and
  \<open>AMQP_ROUTING_KEY\<close> where these are set, and \<open>/\<close>, \<open>robot-shop\<close>, \<open>direct\<close> and \<open>orders\<close>
  where they are not; the connection parameters carry the same virtual host.
\<close>

theorem Publisher_init_defaults:
  assumes "\<forall>k \<in> set required_vars. \<exists>v. env k = Some v \<and> v \<noteq> []"
  shows "\<exists>p. Publisher_init env = Inr p \<and>
           VIRTUAL_HOST p = (case env ''AMQP_VHOST'' of None \<Rightarrow> ''/'' | Some v \<Rightarrow> v) \<and>
           EXCHANGE p = (case env ''AMQP_EXCHANGE'' of None \<Rightarrow> ''robot-shop'' | Some v \<Rightarrow> v) \<and>
           TYPE' p = (case env ''AMQP_EXCHANGE_TYPE'' of None \<Rightarrow> ''direct'' | Some v \<Rightarrow> v) \<and>
           ROUTING_KEY p = (case env ''AMQP_ROUTING_KEY'' of None \<Rightarrow> ''orders'' | Some v \<Rightarrow> v) \<and>
           virtual_host (params p) = VIRTUAL_HOST p"
proof -
  from assms have "missing_vars env = []"
    by (simp add: missing_vars_empty_iff)
  from init_returns [OF this] show ?thesis
    by (simp add: getenv_default_def)
qed

theorem Publisher_init_defaults_witness:
  "env_custom ''AMQP_HOST'' = Some ''rabbitmq'' \<and> env_custom ''AMQP_USER'' = Some ''guest'' \<and>
   env_custom ''AMQP_PASS'' = Some ''secret'' \<and>
   env_custom ''AMQP_VHOST'' = Some [] \<and> env_custom ''AMQP_EXCHANGE'' = Some ''shop'' \<and>
   env_custom ''AMQP_EXCHANGE_TYPE'' = None \<and> env_custom ''AMQP_ROUTING_KEY'' = None \<and>
   (\<exists>p. Publisher_init env_custom = Inr p \<and>
        VIRTUAL_HOST p = [] \<and> EXCHANGE p = ''shop'' \<and> TYPE' p = ''direct'' \<and>
        ROUTING_KEY p = ''orders'' \<and> virtual_host (params p) = [])"
proof -
  have h: "\<forall>k \<in> set required_vars. \<exists>v. env_custom k = Some v \<and> v \<noteq> []"
    by (simp add: required_vars_def env_custom_def)
  have e: "env_custom ''AMQP_HOST'' = Some ''rabbitmq''" "env_custom ''AMQP_USER'' = Some ''guest''"
    "env_custom ''AMQP_PASS'' = Some ''secret''"
    "env_custom ''AMQP_VHOST'' = Some []" "env_custom ''AMQP_EXCHANGE'' = Some ''shop''"
    "env_custom ''AMQP_EXCHANGE_TYPE'' = None" "env_custom ''AMQP_ROUTING_KEY'' = None"
    by (simp_all add: env_custom_def)
  from Publisher_init_defaults [OF h] e show ?thesis
    by auto
qed

subsection \<open>The three methods, branch by branch\<close>

lemma headers_or_empty_eq:
  "headers_or_empty headers = (case headers of None \<Rightarrow> [] | Some h \<Rightarrow> h)"
  by (simp add: headers_or_empty_def split: option.splits)

lemma published_append [simp]: "published (xs @ ys) = published xs @ published ys"
  by (simp add: published_def)

lemma connect_steps_append [simp]:
  "connect_steps (xs @ ys) = connect_steps xs @ connect_steps ys"
  by (simp add: connect_steps_def)

lemma no_open_conn_iff:
  "no_open_conn p w \<longleftrightarrow> (conn p = None \<or> (\<exists>c. conn p = Some c \<and> conn_is_closed w c))"
  by (simp add: no_open_conn_def split: option.splits)

lemma open_conn_iff:
  "\<not> no_open_conn p w \<longleftrightarrow> (\<exists>c. conn p = Some c \<and> conn_is_open w c)"
  by (simp add: no_open_conn_def conn_is_closed_def split: option.splits)

lemma connect_open: "\<not> no_open_conn p w \<Longrightarrow> connect p w = Inr (p, w)"
  by (simp add: connect_def)

lemma connect_unreachable:
  "no_open_conn p w \<Longrightarrow> \<not> reachable w \<Longrightarrow> connect p w = Inl (AMQPConnectionError, p, w)"
  by (simp add: connect_def BlockingConnection_def)

lemma connect_fresh:
  "no_open_conn p w \<Longrightarrow> reachable w \<Longrightarrow> connect p w = Inr (after_connect p w)"
  by (simp add: connect_def BlockingConnection_def conn_channel_def exchange_declare_def
      logger_info_def conn_is_open_def chan_is_open_def Let_def after_connect_def)

lemma after_connect_open:
  "\<not> no_open_conn (fst (after_connect p w)) (snd (after_connect p w))"
  by (simp add: after_connect_def no_open_conn_def conn_is_closed_def conn_is_open_def)

lemma publish_open:
  "\<not> no_open_conn p w \<Longrightarrow>
   publish dumps encode p w msg headers =
     (case channel p of
        None \<Rightarrow> Inl (AttributeError, p, w)
      | Some ch \<Rightarrow>
          (case dumps msg of
             Inl e \<Rightarrow> Inl (e, p, w)
           | Inr s \<Rightarrow>
               if chan_is_open w ch
               then Inr (p, after_send p ch (encode s) (headers_or_empty headers) w)
               else Inl (ChannelWrongStateError, p, w)))"
  by (simp add: publish_def basic_publish_def logger_info_def after_send_def
      split: option.splits sum.splits)

lemma publish_unreachable:
  "no_open_conn p w \<Longrightarrow> \<not> reachable w \<Longrightarrow>
   publish dumps encode p w msg headers = Inl (AMQPConnectionError, p, w)"
  by (simp add: publish_def connect_unreachable)

lemma publish_fresh:
  "no_open_conn p w \<Longrightarrow> reachable w \<Longrightarrow>
   publish dumps encode p w msg headers =
     (case dumps msg of
        Inl e \<Rightarrow> Inl (e, after_connect p w)
      | Inr s \<Rightarrow>
          Inr (fst (after_connect p w),
               after_send p (length (chans w)) (encode s) (headers_or_empty headers)
                 (snd (after_connect p w))))"
  by (simp add: publish_def connect_fresh basic_publish_def logger_info_def chan_is_open_def
      after_connect_def after_send_def split: sum.splits)

lemma close_open:
  "conn p = Some c \<Longrightarrow> conn_is_open w c \<Longrightarrow>
   close p w =
     Inr (p, w\<lparr>conns := (conns w)[c := False],
               chans := map (\<lambda>(c', opn). (c', opn \<and> c' \<noteq> c)) (chans w),
               trace := trace w @ [ConnectionClosed c]\<rparr>)"
  by (simp add: close_def conn_close_def)

lemma close_noop: "no_open_conn p w \<Longrightarrow> close p w = Inr (p, w)"
  by (simp add: close_def no_open_conn_def conn_is_closed_def split: option.splits)

text \<open>
  Every call of \<open>publish\<close> ends in one of five ways: the connection is refused; the
  message has no JSON form or the channel is missing or closed, after a connect sequence
  or without one; or the message is sent, after a connect sequence or without one.
\<close>

lemma publish_cases:
  obtains
    (refused) "no_open_conn p w" "\<not> reachable w"
      "publish dumps encode p w msg headers = Inl (AMQPConnectionError, p, w)"
  | (fresh_raise) e where "no_open_conn p w" "reachable w"
      "publish dumps encode p w msg headers = Inl (e, after_connect p w)"
  | (fresh_sent) s where "no_open_conn p w" "reachable w" "dumps msg = Inr s"
      "publish dumps encode p w msg headers =
         Inr (fst (after_connect p w),
              after_send p (length (chans w)) (encode s) (headers_or_empty headers)
                (snd (after_connect p w)))"
  | (open_raise) e where "\<not> no_open_conn p w"
      "publish dumps encode p w msg headers = Inl (e, p, w)"
  | (open_sent) s ch where "\<not> no_open_conn p w" "dumps msg = Inr s" "channel p = Some ch"
      "chan_is_open w ch"
      "publish dumps encode p w msg headers =
         Inr (p, after_send p ch (encode s) (headers_or_empty headers) w)"
proof (cases "no_open_conn p w")
  case True
  show ?thesis
  proof (cases "reachable w")
    case False
    with True show ?thesis
      by (intro refused) (simp_all add: publish_unreachable)
  next
    case r: True
    show ?thesis
    proof (cases "dumps msg")
      case (Inl e)
      with True r show ?thesis
        by (intro fresh_raise [of e]) (simp_all add: publish_fresh)
    next
      case (Inr s)
      with True r show ?thesis
        by (intro fresh_sent [of s]) (simp_all add: publish_fresh)
    qed
  qed
next
  case False
  note eq = publish_open [OF False, of dumps encode msg headers]
  show ?thesis
  proof (cases "channel p")
    case None
    with False eq show ?thesis
      by (intro open_raise [of AttributeError]) simp_all
  next
    case (Some ch)
    show ?thesis
    proof (cases "dumps msg")
      case (Inl e)
      with False eq Some show ?thesis
        by (intro open_raise [of e]) simp_all
    next
      case (Inr s)
      show ?thesis
      proof (cases "chan_is_open w ch")
        case True
        with False eq Some Inr show ?thesis
          by (intro open_sent [of s ch]) simp_all
      next
        case c: False
        with False eq Some Inr show ?thesis
          by (intro open_raise [of ChannelWrongStateError]) simp_all
      qed
    qed
  qed
qed

subsection \<open>Connecting\<close>

text \<open>
  Claim C5. When the object holds a connection that is open, \<open>connect\<close> returns with the
  object and the store unchanged: no connection, no channel, no declaration, no line for
  the logger. When it holds none or a closed one and the broker accepts connections,
  \<open>connect\<close> opens a new connection with the stored parameters and a new channel on it,
  declares the configured exchange with the configured type and \<open>durable\<close> true, tells the
  logger, and keeps both references; a second \<open>connect\<close> right after it changes nothing.
  When the broker refuses, the error leaves the object and the store as they were.
\<close>

theorem connect_idempotent:
  "(conn p = Some c \<and> conn_is_open w c \<longrightarrow> connect p w = Inr (p, w)) \<and>
   (no_open_conn p w \<and> reachable w \<longrightarrow>
      (\<exists>c' ch' w'.
         connect p w = Inr (p\<lparr>conn := Some c', channel := Some ch'\<rparr>, w') \<and>
         c' = length (conns w) \<and> ch' = length (chans w) \<and>
         conn_is_open w' c' \<and> chan_is_open w' ch' \<and>
         trace w' = trace w @
           [ConnectionOpened c' (params p), ChannelOpened c' ch',
            ExchangeDeclared ch' (EXCHANGE p) (TYPE' p) True,
            LogInfo (''connected to broker '' @ HOST p @ '' vhost='' @ VIRTUAL_HOST p)] \<and>
         connect (p\<lparr>conn := Some c', channel := Some ch'\<rparr>) w'
           = Inr (p\<lparr>conn := Some c', channel := Some ch'\<rparr>, w'))) \<and>
   (no_open_conn p w \<and> \<not> reachable w \<longrightarrow> connect p w = Inl (AMQPConnectionError, p, w))"
proof (intro conjI impI)
  assume "conn p = Some c \<and> conn_is_open w c"
  then have "\<not> no_open_conn p w"
    by (auto simp: open_conn_iff)
  then show "connect p w = Inr (p, w)"
    by (rule connect_open)
next
  assume a: "no_open_conn p w \<and> reachable w"
  let ?p = "fst (after_connect p w)" and ?w = "snd (after_connect p w)"
  from a have eq: "connect p w = Inr (?p, ?w)"
    by (simp add: connect_fresh)
  have again: "connect ?p ?w = Inr (?p, ?w)"
    using after_connect_open by (rule connect_open)
  show "\<exists>c' ch' w'.
         connect p w = Inr (p\<lparr>conn := Some c', channel := Some ch'\<rparr>, w') \<and>
         c' = length (conns w) \<and> ch' = length (chans w) \<and>
         conn_is_open w' c' \<and> chan_is_open w' ch' \<and>
         trace w' = trace w @
           [ConnectionOpened c' (params p), ChannelOpened c' ch',
            ExchangeDeclared ch' (EXCHANGE p) (TYPE' p) True,
            LogInfo (''connected to broker '' @ HOST p @ '' vhost='' @ VIRTUAL_HOST p)] \<and>
         connect (p\<lparr>conn := Some c', channel := Some ch'\<rparr>) w'
           = Inr (p\<lparr>conn := Some c', channel := Some ch'\<rparr>, w')"
    using eq again
    by (intro exI [of _ "length (conns w)"] exI [of _ "length (chans w)"] exI [of _ ?w])
       (simp add: after_connect_def conn_is_open_def chan_is_open_def)
next
  assume "no_open_conn p w \<and> \<not> reachable w"
  then show "connect p w = Inl (AMQPConnectionError, p, w)"
    by (simp add: connect_unreachable)
qed

theorem connect_idempotent_witness:
  "no_open_conn pub_ok world0 \<and> reachable world0 \<and>
   conn pub_conn = Some 0 \<and> conn_is_open world_conn 0 \<and>
   connect pub_conn world_conn = Inr (pub_conn, world_conn) \<and>
   (\<exists>w'. connect pub_ok world0 = Inr (pub_conn, w') \<and>
         trace w' =
           [ConnectionOpened 0 (params pub_ok), ChannelOpened 0 0,
            ExchangeDeclared 0 ''robot-shop'' ''direct'' True,
            LogInfo ''connected to broker rabbitmq vhost=/''])"
proof -
  have a: "no_open_conn pub_ok world0" "reachable world0"
    by (simp_all add: no_open_conn_def pub_ok_def world0_def)
  have b: "conn pub_conn = Some 0" "conn_is_open world_conn 0"
    by (simp_all add: pub_conn_def world_conn_def conn_is_open_def)
  from connect_idempotent [of pub_conn 0 world_conn] b
  have c: "connect pub_conn world_conn = Inr (pub_conn, world_conn)"
    by blast
  from connect_idempotent [of pub_ok 0 world0] a
  have "\<exists>w'. connect pub_ok world0 =
                Inr (pub_ok\<lparr>conn := Some (length (conns world0)),
                             channel := Some (length (chans world0))\<rparr>, w') \<and>
         trace w' = trace world0 @
           [ConnectionOpened (length (conns world0)) (params pub_ok),
            ChannelOpened (length (conns world0)) (length (chans world0)),
            ExchangeDeclared (length (chans world0)) (EXCHANGE pub_ok) (TYPE' pub_ok) True,
            LogInfo (''connected to broker '' @ HOST pub_ok @ '' vhost=''
                     @ VIRTUAL_HOST pub_ok)]"
    by blast
  then have "\<exists>w'. connect pub_ok world0 = Inr (pub_conn, w') \<and>
         trace w' =
           [ConnectionOpened 0 (params pub_ok), ChannelOpened 0 0,
            ExchangeDeclared 0 ''robot-shop'' ''direct'' True,
            LogInfo ''connected to broker rabbitmq vhost=/'']"
    by (simp add: world0_def pub_conn_def pub_ok_def)
  with a b c show ?thesis by simp
qed

subsection \<open>Closing\<close>

text \<open>
  Claim C8. When the object holds an open connection, \<open>close\<close> closes it: the call
  returns, the connection is closed afterwards, and the trace grows by that one call.
  When the object holds no connection, or a connection that is already closed, \<open>close\<close>
  returns without raising and leaves the object and the store unchanged.
\<close>

theorem close_open_or_noop:
  "(conn p = Some c \<and> conn_is_open w c \<longrightarrow>
      (\<exists>w'. close p w = Inr (p, w') \<and> conn_is_closed w' c \<and>
            trace w' = trace w @ [ConnectionClosed c] \<and>
            close p w' = Inr (p, w'))) \<and>
   (conn p = None \<longrightarrow> close p w = Inr (p, w)) \<and>
   (conn p = Some c \<and> conn_is_closed w c \<longrightarrow> close p w = Inr (p, w))"
proof (intro conjI impI)
  assume a: "conn p = Some c \<and> conn_is_open w c"
  let ?w = "w\<lparr>conns := (conns w)[c := False],
               chans := map (\<lambda>(c', opn). (c', opn \<and> c' \<noteq> c)) (chans w),
               trace := trace w @ [ConnectionClosed c]\<rparr>"
  from a have eq: "close p w = Inr (p, ?w)"
    by (simp add: close_open)
  have closed: "conn_is_closed ?w c"
    by (simp add: conn_is_closed_def conn_is_open_def)
  with a have "no_open_conn p ?w"
    by (simp add: no_open_conn_def)
  then have "close p ?w = Inr (p, ?w)"
    by (rule close_noop)
  with eq closed show "\<exists>w'. close p w = Inr (p, w') \<and> conn_is_closed w' c \<and>
            trace w' = trace w @ [ConnectionClosed c] \<and> close p w' = Inr (p, w')"
    by (intro exI [of _ ?w]) simp
next
  assume "conn p = None"
  then show "close p w = Inr (p, w)"
    by (simp add: close_def)
next
  assume "conn p = Some c \<and> conn_is_closed w c"
  then show "close p w = Inr (p, w)"
    by (simp add: close_def conn_is_closed_def)
qed

theorem close_open_or_noop_witness:
  "conn pub_conn = Some 0 \<and> conn_is_open world_conn 0 \<and> conn_is_closed world_closed 0 \<and>
   conn pub_ok = None \<and>
   close pub_conn world_conn = Inr (pub_conn, world_closed) \<and>
   close pub_conn world_closed = Inr (pub_conn, world_closed) \<and>
   close pub_ok world0 = Inr (pub_ok, world0)"
proof -
  have a: "conn pub_conn = Some 0" "conn_is_open world_conn 0"
    "conn_is_closed world_closed 0" "conn pub_ok = None"
    by (simp_all add: pub_conn_def pub_ok_def world_conn_def world_closed_def
        conn_is_open_def conn_is_closed_def)
  have b: "close pub_conn world_conn = Inr (pub_conn, world_closed)"
    by (simp add: close_def conn_close_def pub_conn_def world_conn_def world_closed_def
        conn_is_open_def)
  from close_open_or_noop [of pub_conn 0 world_closed] a
  have c: "close pub_conn world_closed = Inr (pub_conn, world_closed)"
    by blast
  from close_open_or_noop [of pub_ok 0 world0] a
  have d: "close pub_ok world0 = Inr (pub_ok, world0)"
    by blast
  from a b c d show ?thesis by simp
qed

subsection \<open>The state a call leaves behind\<close>

lemma after_connect_fields:
  "conn (fst (after_connect p w)) = Some (length (conns w))"
  "channel (fst (after_connect p w)) = Some (length (chans w))"
  "params (fst (after_connect p w)) = params p"
  "EXCHANGE (fst (after_connect p w)) = EXCHANGE p"
  "ROUTING_KEY (fst (after_connect p w)) = ROUTING_KEY p"
  by (simp_all add: after_connect_def)

lemma after_connect_world:
  "conn_is_open (snd (after_connect p w)) (length (conns w))"
  "chan_is_open (snd (after_connect p w)) (length (chans w))"
  "published (trace (snd (after_connect p w))) = published (trace w)"
  "connect_steps (trace (snd (after_connect p w))) =
     connect_steps (trace w) @
       [ConnectionOpened (length (conns w)) (params p),
        ChannelOpened (length (conns w)) (length (chans w)),
        ExchangeDeclared (length (chans w)) (EXCHANGE p) (TYPE' p) True]"
  by (simp_all add: after_connect_def conn_is_open_def chan_is_open_def published_def
      connect_steps_def)

lemma after_send_world:
  "conn_is_open (after_send p ch body hdrs w) c = conn_is_open w c"
  "chan_is_open (after_send p ch body hdrs w) ch' = chan_is_open w ch'"
  "published (trace (after_send p ch body hdrs w)) =
     published (trace w) @ [BasicPublish ch (EXCHANGE p) (ROUTING_KEY p) body hdrs]"
  "connect_steps (trace (after_send p ch body hdrs w)) = connect_steps (trace w)"
  by (simp_all add: after_send_def conn_is_open_def chan_is_open_def published_def
      connect_steps_def)

lemma no_open_conn_after_send:
  "no_open_conn p' (after_send p ch body hdrs w) = no_open_conn p' w"
  by (simp add: no_open_conn_def conn_is_closed_def after_send_world split: option.splits)

lemma publish_fresh_sent:
  "no_open_conn p w \<Longrightarrow> reachable w \<Longrightarrow> dumps msg = Inr s \<Longrightarrow>
   publish dumps encode p w msg headers =
     Inr (fst (after_connect p w),
          after_send p (length (chans w)) (encode s) (headers_or_empty headers)
            (snd (after_connect p w)))"
  by (simp add: publish_fresh)

lemma publish_open_sent:
  "\<not> no_open_conn p w \<Longrightarrow> channel p = Some ch \<Longrightarrow> chan_is_open w ch \<Longrightarrow>
   dumps msg = Inr s \<Longrightarrow>
   publish dumps encode p w msg headers =
     Inr (p, after_send p ch (encode s) (headers_or_empty headers) w)"
  by (simp add: publish_open)

lemma publish_open_closed_channel:
  "\<not> no_open_conn p w \<Longrightarrow> channel p = Some ch \<Longrightarrow> \<not> chan_is_open w ch \<Longrightarrow>
   dumps msg = Inr s \<Longrightarrow>
   publish dumps encode p w msg headers = Inl (ChannelWrongStateError, p, w)"
  by (simp add: publish_open)

lemma connect_params: "params (fst (final_state (connect p w))) = params p"
  by (simp add: connect_def Let_def split: sum.splits prod.splits)

lemma close_final: "fst (final_state (close p w)) = p"
  by (simp add: close_def split: option.splits sum.splits)

lemma publish_config:
  "EXCHANGE (fst (final_state (publish dumps encode p w msg headers))) = EXCHANGE p \<and>
   ROUTING_KEY (fst (final_state (publish dumps encode p w msg headers))) = ROUTING_KEY p"
proof (cases rule: publish_cases [of p w dumps encode msg headers])
  case refused
  then show ?thesis by simp
next
  case (fresh_raise e)
  then show ?thesis by (simp add: after_connect_def)
next
  case (fresh_sent s)
  then show ?thesis by (simp add: after_connect_def)
next
  case (open_raise e)
  then show ?thesis by simp
next
  case (open_sent s ch)
  then show ?thesis by simp
qed

lemma publish_at_most_one:
  "published (trace (snd (final_state (publish dumps encode p w msg headers))))
     = published (trace w) \<or>
   (\<exists>s ch. dumps msg = Inr s \<and>
      published (trace (snd (final_state (publish dumps encode p w msg headers))))
        = published (trace w) @
            [BasicPublish ch (EXCHANGE p) (ROUTING_KEY p) (encode s)
               (case headers of None \<Rightarrow> [] | Some h \<Rightarrow> h)])"
proof (cases rule: publish_cases [of p w dumps encode msg headers])
  case refused
  then show ?thesis by simp
next
  case (fresh_raise e)
  then show ?thesis by (simp add: after_connect_world)
next
  case (fresh_sent s)
  then show ?thesis
    by (simp add: after_send_world after_connect_world headers_or_empty_eq)
next
  case (open_raise e)
  then show ?thesis by simp
next
  case (open_sent s ch)
  then show ?thesis
    by (simp add: after_send_world headers_or_empty_eq)
qed

subsection \<open>Publishing\<close>

text \<open>
  Claim C3. A message with a JSON form is given to the broker with the encoding of its
  JSON text as body, to the exchange and the routing key of the object, and with the
  headers of the call, the empty mapping when none were given: after a connect sequence
  when the object holds no open connection and the broker accepts one, and on the channel
  of the object when the connection is open and that channel is open. In both cases
  \<open>publish\<close> returns and that message is the only one added. No call of \<open>publish\<close> gives
  the broker anything else: the messages published afterwards are those published before,
  or those and the one message just described. The exchange and the routing key of the
  object are the same after the call.
\<close>

theorem publish_body_and_properties:
  "(no_open_conn p w \<and> reachable w \<and> dumps msg = Inr s \<longrightarrow>
      (\<exists>p' w'. publish dumps encode p w msg headers = Inr (p', w') \<and>
         published (trace w') = published (trace w) @
           [BasicPublish (length (chans w)) (EXCHANGE p) (ROUTING_KEY p) (encode s)
              (case headers of None \<Rightarrow> [] | Some h \<Rightarrow> h)])) \<and>
   (conn p = Some c \<and> conn_is_open w c \<and> channel p = Some ch \<and> chan_is_open w ch \<and>
    dumps msg = Inr s \<longrightarrow>
      (\<exists>w'. publish dumps encode p w msg headers = Inr (p, w') \<and>
         trace w' = trace w @
           [BasicPublish ch (EXCHANGE p) (ROUTING_KEY p) (encode s)
              (case headers of None \<Rightarrow> [] | Some h \<Rightarrow> h),
            LogInfo ''message sent to queue''])) \<and>
   (published (trace (snd (final_state (publish dumps encode p w msg headers))))
      = published (trace w) \<or>
    (\<exists>s' ch'. dumps msg = Inr s' \<and>
       published (trace (snd (final_state (publish dumps encode p w msg headers))))
         = published (trace w) @
             [BasicPublish ch' (EXCHANGE p) (ROUTING_KEY p) (encode s')
                (case headers of None \<Rightarrow> [] | Some h \<Rightarrow> h)])) \<and>
   EXCHANGE (fst (final_state (publish dumps encode p w msg headers))) = EXCHANGE p \<and>
   ROUTING_KEY (fst (final_state (publish dumps encode p w msg headers))) = ROUTING_KEY p"
proof -
  have fresh: "\<exists>p' w'. publish dumps encode p w msg headers = Inr (p', w') \<and>
         published (trace w') = published (trace w) @
           [BasicPublish (length (chans w)) (EXCHANGE p) (ROUTING_KEY p) (encode s)
              (case headers of None \<Rightarrow> [] | Some h \<Rightarrow> h)]"
    if a: "no_open_conn p w \<and> reachable w \<and> dumps msg = Inr s"
  proof -
    from a have "publish dumps encode p w msg headers =
      Inr (fst (after_connect p w),
           after_send p (length (chans w)) (encode s) (headers_or_empty headers)
             (snd (after_connect p w)))"
      by (simp add: publish_fresh_sent)
    then show ?thesis
      by (simp add: after_send_world after_connect_world headers_or_empty_eq)
  qed
  have opn: "\<exists>w'. publish dumps encode p w msg headers = Inr (p, w') \<and>
         trace w' = trace w @
           [BasicPublish ch (EXCHANGE p) (ROUTING_KEY p) (encode s)
              (case headers of None \<Rightarrow> [] | Some h \<Rightarrow> h),
            LogInfo ''message sent to queue'']"
    if a: "conn p = Some c \<and> conn_is_open w c \<and> channel p = Some ch \<and> chan_is_open w ch \<and>
           dumps msg = Inr s"
  proof -
    from a have "\<not> no_open_conn p w"
      by (auto simp: open_conn_iff)
    with a have "publish dumps encode p w msg headers =
      Inr (p, after_send p ch (encode s) (headers_or_empty headers) w)"
      by (simp add: publish_open_sent)
    then show ?thesis
      by (simp add: after_send_def headers_or_empty_eq)
  qed
  from fresh opn publish_at_most_one [of dumps encode p w msg headers]
    publish_config [of dumps encode p w msg headers]
  show ?thesis by blast
qed

theorem publish_body_and_properties_witness:
  "no_open_conn pub_ok world0 \<and> reachable world0 \<and> sample_dumps PyNone = Inr ''null'' \<and>
   conn pub_conn = Some 0 \<and> conn_is_open world_conn 0 \<and>
   channel pub_conn = Some 0 \<and> chan_is_open world_conn 0 \<and>
   sample_dumps (PyBool True) = Inr ''true'' \<and>
   (\<exists>p' w'. publish sample_dumps ascii_encode pub_ok world0 PyNone None = Inr (p', w') \<and>
      published (trace w') = [BasicPublish 0 ''robot-shop'' ''orders'' ''null'' []]) \<and>
   (\<exists>w'. publish sample_dumps ascii_encode pub_conn world_conn (PyBool True)
            (Some [(''x-kind'', ''order'')]) = Inr (pub_conn, w') \<and>
      trace w' = trace world_conn @
        [BasicPublish 0 ''robot-shop'' ''orders'' ''true'' [(''x-kind'', ''order'')],
         LogInfo ''message sent to queue''])"
proof -
  have a: "no_open_conn pub_ok world0" "reachable world0" "sample_dumps PyNone = Inr ''null''"
    by (simp_all add: no_open_conn_def pub_ok_def world0_def)
  have b: "conn pub_conn = Some 0" "conn_is_open world_conn 0"
    "channel pub_conn = Some 0" "chan_is_open world_conn 0"
    "sample_dumps (PyBool True) = Inr ''true''"
    by (simp_all add: pub_conn_def world_conn_def conn_is_open_def chan_is_open_def)
  from publish_body_and_properties
    [where p = pub_ok and w = world0 and dumps = sample_dumps and msg = PyNone
       and s = "''null''" and encode = ascii_encode and headers = None] a
  have "\<exists>p' w'. publish sample_dumps ascii_encode pub_ok world0 PyNone None = Inr (p', w') \<and>
      published (trace w') = published (trace world0) @
        [BasicPublish (length (chans world0)) (EXCHANGE pub_ok) (ROUTING_KEY pub_ok)
           (ascii_encode ''null'') (case None of None \<Rightarrow> [] | Some h \<Rightarrow> h)]"
    by blast
  then have f: "\<exists>p' w'. publish sample_dumps ascii_encode pub_ok world0 PyNone None
        = Inr (p', w') \<and>
      published (trace w') = [BasicPublish 0 ''robot-shop'' ''orders'' ''null'' []]"
    by (simp add: world0_def pub_ok_def ascii_encode_def published_def)
  from publish_body_and_properties
    [where p = pub_conn and w = world_conn and dumps = sample_dumps and msg = "PyBool True"
       and s = "''true''" and c = 0 and ch = 0 and encode = ascii_encode
       and headers = "Some [(''x-kind'', ''order'')]"] b
  have "\<exists>w'. publish sample_dumps ascii_encode pub_conn world_conn (PyBool True)
            (Some [(''x-kind'', ''order'')]) = Inr (pub_conn, w') \<and>
      trace w' = trace world_conn @
        [BasicPublish 0 (EXCHANGE pub_conn) (ROUTING_KEY pub_conn) (ascii_encode ''true'')
           (case Some [(''x-kind'', ''order'')] of None \<Rightarrow> [] | Some h \<Rightarrow> h),
         LogInfo ''message sent to queue'']"
    by blast
  then have g: "\<exists>w'. publish sample_dumps ascii_encode pub_conn world_conn (PyBool True)
            (Some [(''x-kind'', ''order'')]) = Inr (pub_conn, w') \<and>
      trace w' = trace world_conn @
        [BasicPublish 0 ''robot-shop'' ''orders'' ''true'' [(''x-kind'', ''order'')],
         LogInfo ''message sent to queue'']"
    by (simp add: pub_conn_def pub_ok_def ascii_encode_def)
  from a b f g show ?thesis by simp
qed

lemma publish_params:
  "params (fst (final_state (publish dumps encode p w msg headers))) = params p"
proof (cases rule: publish_cases [of p w dumps encode msg headers])
  case refused
  then show ?thesis by simp
next
  case (fresh_raise e)
  then show ?thesis by (simp add: after_connect_def)
next
  case (fresh_sent s)
  then show ?thesis by (simp add: after_connect_def)
next
  case (open_raise e)
  then show ?thesis by simp
next
  case (open_sent s ch)
  then show ?thesis by simp
qed

subsection \<open>The connection parameters\<close>

text \<open>
  Claim C10. Whatever else the environment holds, when the three required variables are
  set to non-empty values the constructor returns an object whose connection parameters
  have a heartbeat of 30 and a blocked-connection timeout of 30, together with the host,
  the virtual host and the credentials of the object. The parameters are a field that
  only the constructor writes: after \<open>connect\<close>, after \<open>publish\<close> and after \<open>close\<close>,
  whether the call returned or raised, the object holds the parameters it held before.
\<close>

theorem params_fixed:
  "((\<forall>k \<in> set required_vars. \<exists>v. env k = Some v \<and> v \<noteq> []) \<longrightarrow>
      (\<exists>p0. Publisher_init env = Inr p0 \<and>
            heartbeat (params p0) = 30 \<and> blocked_connection_timeout (params p0) = 30 \<and>
            host (params p0) = HOST p0 \<and> virtual_host (params p0) = VIRTUAL_HOST p0 \<and>
            credentials (params p0) = (USER p0, PASS p0))) \<and>
   params (fst (final_state (connect p w))) = params p \<and>
   params (fst (final_state (publish dumps encode p w msg headers))) = params p \<and>
   params (fst (final_state (close p w))) = params p"
proof (intro conjI impI)
  assume "\<forall>k \<in> set required_vars. \<exists>v. env k = Some v \<and> v \<noteq> []"
  then have "missing_vars env = []"
    by (simp add: missing_vars_empty_iff)
  from init_returns [OF this]
  show "\<exists>p0. Publisher_init env = Inr p0 \<and>
            heartbeat (params p0) = 30 \<and> blocked_connection_timeout (params p0) = 30 \<and>
            host (params p0) = HOST p0 \<and> virtual_host (params p0) = VIRTUAL_HOST p0 \<and>
            credentials (params p0) = (USER p0, PASS p0)"
    by simp
next
  show "params (fst (final_state (connect p w))) = params p"
    by (rule connect_params)
next
  show "params (fst (final_state (publish dumps encode p w msg headers))) = params p"
    by (rule publish_params)
next
  show "params (fst (final_state (close p w))) = params p"
    by (simp add: close_final)
qed

theorem params_fixed_witness:
  "env_custom ''AMQP_HOST'' = Some ''rabbitmq'' \<and> env_custom ''AMQP_USER'' = Some ''guest'' \<and>
   env_custom ''AMQP_PASS'' = Some ''secret'' \<and>
   (\<exists>p0. Publisher_init env_custom = Inr p0 \<and>
         heartbeat (params p0) = 30 \<and> blocked_connection_timeout (params p0) = 30) \<and>
   heartbeat (params pub_ok) = 30 \<and> blocked_connection_timeout (params pub_ok) = 30 \<and>
   params (fst (final_state (connect pub_ok world0))) = params pub_ok \<and>
   params (fst (final_state (publish sample_dumps ascii_encode pub_ok world0 PyNone None)))
     = params pub_ok \<and>
   params (fst (final_state (close pub_conn world_conn))) = params pub_ok"
proof -
  have h: "\<forall>k \<in> set required_vars. \<exists>v. env_custom k = Some v \<and> v \<noteq> []"
    by (simp add: required_vars_def env_custom_def)
  have e: "env_custom ''AMQP_HOST'' = Some ''rabbitmq''"
    "env_custom ''AMQP_USER'' = Some ''guest''" "env_custom ''AMQP_PASS'' = Some ''secret''"
    by (simp_all add: env_custom_def)
  have v: "heartbeat (params pub_ok) = 30" "blocked_connection_timeout (params pub_ok) = 30"
    "params pub_conn = params pub_ok"
    by (simp_all add: pub_ok_def pub_conn_def)
  note t = params_fixed [of env_custom pub_ok world0 sample_dumps ascii_encode PyNone None]
  note u = params_fixed [of env_custom pub_conn world_conn sample_dumps ascii_encode PyNone None]
  from t h have i: "\<exists>p0. Publisher_init env_custom = Inr p0 \<and>
         heartbeat (params p0) = 30 \<and> blocked_connection_timeout (params p0) = 30"
    by blast
  from t have c: "params (fst (final_state (connect pub_ok world0))) = params pub_ok"
    and s: "params (fst (final_state (publish sample_dumps ascii_encode pub_ok world0 PyNone None)))
       = params pub_ok"
    by blast+
  from u v have d: "params (fst (final_state (close pub_conn world_conn))) = params pub_ok"
    by simp
  from e i v c s d show ?thesis by simp
qed

subsection \<open>Publishing on a live connection\<close>

lemma publish_final_open:
  assumes "\<not> no_open_conn p w"
  shows "fst (final_state (publish dumps encode p w msg headers)) = p \<and>
         connect_steps (trace (snd (final_state (publish dumps encode p w msg headers))))
           = connect_steps (trace w) \<and>
         \<not> no_open_conn p (snd (final_state (publish dumps encode p w msg headers)))"
proof (cases "channel p")
  case None
  with assms show ?thesis
    by (simp add: publish_open)
next
  case (Some ch)
  show ?thesis
  proof (cases "dumps msg")
    case (Inl e)
    with assms Some show ?thesis
      by (simp add: publish_open)
  next
    case (Inr s)
    with assms Some show ?thesis
      by (cases "chan_is_open w ch")
         (simp_all add: publish_open after_send_world no_open_conn_after_send)
  qed
qed

lemma publish_final_fresh:
  assumes "no_open_conn p w" and "reachable w"
  shows "fst (final_state (publish dumps encode p w msg headers)) = fst (after_connect p w) \<and>
         connect_steps (trace (snd (final_state (publish dumps encode p w msg headers))))
           = connect_steps (trace (snd (after_connect p w))) \<and>
         \<not> no_open_conn (fst (after_connect p w))
             (snd (final_state (publish dumps encode p w msg headers)))"
proof (cases "dumps msg")
  case (Inl e)
  with publish_fresh [OF assms, of dumps encode msg headers]
  have "publish dumps encode p w msg headers = Inl (e, after_connect p w)"
    by simp
  then show ?thesis
    by (simp add: after_connect_open)
next
  case (Inr s)
  with assms have "publish dumps encode p w msg headers =
      Inr (fst (after_connect p w),
           after_send p (length (chans w)) (encode s) (headers_or_empty headers)
             (snd (after_connect p w)))"
    by (simp add: publish_fresh_sent)
  then show ?thesis
    by (simp add: after_send_world no_open_conn_after_send after_connect_open)
qed

lemma publish_final_refused:
  "no_open_conn p w \<Longrightarrow> \<not> reachable w \<Longrightarrow>
   final_state (publish dumps encode p w msg headers) = (p, w)"
  by (simp add: publish_unreachable)

lemma publish_sent_live:
  "published (trace (snd (final_state (publish dumps encode p w msg headers))))
     = published (trace w) \<or>
   (\<exists>c ch body hdrs.
      conn (fst (final_state (publish dumps encode p w msg headers))) = Some c \<and>
      channel (fst (final_state (publish dumps encode p w msg headers))) = Some ch \<and>
      conn_is_open (snd (final_state (publish dumps encode p w msg headers))) c \<and>
      chan_is_open (snd (final_state (publish dumps encode p w msg headers))) ch \<and>
      published (trace (snd (final_state (publish dumps encode p w msg headers))))
        = published (trace w) @ [BasicPublish ch (EXCHANGE p) (ROUTING_KEY p) body hdrs])"
proof (cases rule: publish_cases [of p w dumps encode msg headers])
  case refused
  then show ?thesis by simp
next
  case (fresh_raise e)
  then show ?thesis by (simp add: after_connect_world)
next
  case (fresh_sent s)
  then show ?thesis
    by (simp add: after_send_world after_connect_world after_connect_fields)
next
  case (open_raise e)
  then show ?thesis by simp
next
  case (open_sent s ch)
  from open_sent(1) obtain c where "conn p = Some c" "conn_is_open w c"
    by (auto simp: open_conn_iff)
  with open_sent show ?thesis
    by (simp add: after_send_world)
qed

text \<open>
  Claim C2, as amended. \<open>publish\<close> tests the connection and nothing else. When the object
  holds no connection or a closed one and the broker accepts connections, \<open>publish\<close> first
  opens a connection and a channel and declares the exchange, and then gives the message
  to the new channel; both are open when it returns. When the broker refuses, the error
  propagates and nothing is sent. When the connection is open, no connect sequence takes
  place: the message goes to the channel the object holds if that channel is open, and if
  it is closed the call of the library on it raises and nothing is sent. So no call of
  \<open>publish\<close> gives the broker a message unless the object then holds an open connection
  and an open channel, the one the message was given to.
\<close>

theorem publish_on_live_connection:
  "(no_open_conn p w \<and> reachable w \<and> dumps msg = Inr s \<longrightarrow>
      (\<exists>c' ch' w'.
         publish dumps encode p w msg headers
           = Inr (p\<lparr>conn := Some c', channel := Some ch'\<rparr>, w') \<and>
         c' = length (conns w) \<and> ch' = length (chans w) \<and>
         conn_is_open w' c' \<and> chan_is_open w' ch' \<and>
         trace w' = trace w @
           [ConnectionOpened c' (params p), ChannelOpened c' ch',
            ExchangeDeclared ch' (EXCHANGE p) (TYPE' p) True,
            LogInfo (''connected to broker '' @ HOST p @ '' vhost='' @ VIRTUAL_HOST p),
            BasicPublish ch' (EXCHANGE p) (ROUTING_KEY p) (encode s)
              (headers_or_empty headers),
            LogInfo ''message sent to queue''])) \<and>
   (no_open_conn p w \<and> \<not> reachable w \<longrightarrow>
      publish dumps encode p w msg headers = Inl (AMQPConnectionError, p, w)) \<and>
   (conn p = Some c \<and> conn_is_open w c \<and> channel p = Some ch \<and> chan_is_open w ch \<and>
    dumps msg = Inr s \<longrightarrow>
      (\<exists>w'. publish dumps encode p w msg headers = Inr (p, w') \<and>
            conn_is_open w' c \<and> chan_is_open w' ch \<and>
            trace w' = trace w @
              [BasicPublish ch (EXCHANGE p) (ROUTING_KEY p) (encode s)
                 (headers_or_empty headers),
               LogInfo ''message sent to queue''])) \<and>
   (conn p = Some c \<and> conn_is_open w c \<and> channel p = Some ch \<and> \<not> chan_is_open w ch \<and>
    dumps msg = Inr s \<longrightarrow>
      publish dumps encode p w msg headers = Inl (ChannelWrongStateError, p, w)) \<and>
   (published (trace (snd (final_state (publish dumps encode p w msg headers))))
      = published (trace w) \<or>
    (\<exists>c1 ch1 body hdrs.
       conn (fst (final_state (publish dumps encode p w msg headers))) = Some c1 \<and>
       channel (fst (final_state (publish dumps encode p w msg headers))) = Some ch1 \<and>
       conn_is_open (snd (final_state (publish dumps encode p w msg headers))) c1 \<and>
       chan_is_open (snd (final_state (publish dumps encode p w msg headers))) ch1 \<and>
       published (trace (snd (final_state (publish dumps encode p w msg headers))))
         = published (trace w) @ [BasicPublish ch1 (EXCHANGE p) (ROUTING_KEY p) body hdrs]))"
proof (intro conjI impI)
  assume a: "no_open_conn p w \<and> reachable w \<and> dumps msg = Inr s"
  let ?w = "after_send p (length (chans w)) (encode s) (headers_or_empty headers)
              (snd (after_connect p w))"
  from a have "publish dumps encode p w msg headers = Inr (fst (after_connect p w), ?w)"
    by (simp add: publish_fresh_sent)
  then show "\<exists>c' ch' w'.
         publish dumps encode p w msg headers
           = Inr (p\<lparr>conn := Some c', channel := Some ch'\<rparr>, w') \<and>
         c' = length (conns w) \<and> ch' = length (chans w) \<and>
         conn_is_open w' c' \<and> chan_is_open w' ch' \<and>
         trace w' = trace w @
           [ConnectionOpened c' (params p), ChannelOpened c' ch',
            ExchangeDeclared ch' (EXCHANGE p) (TYPE' p) True,
            LogInfo (''connected to broker '' @ HOST p @ '' vhost='' @ VIRTUAL_HOST p),
            BasicPublish ch' (EXCHANGE p) (ROUTING_KEY p) (encode s)
              (headers_or_empty headers),
            LogInfo ''message sent to queue'']"
    by (intro exI [of _ "length (conns w)"] exI [of _ "length (chans w)"] exI [of _ ?w])
       (simp add: after_connect_def after_send_def conn_is_open_def chan_is_open_def)
next
  assume "no_open_conn p w \<and> \<not> reachable w"
  then show "publish dumps encode p w msg headers = Inl (AMQPConnectionError, p, w)"
    by (simp add: publish_unreachable)
next
  assume a: "conn p = Some c \<and> conn_is_open w c \<and> channel p = Some ch \<and>
             chan_is_open w ch \<and> dumps msg = Inr s"
  let ?w = "after_send p ch (encode s) (headers_or_empty headers) w"
  from a have "\<not> no_open_conn p w"
    by (auto simp: open_conn_iff)
  with a have "publish dumps encode p w msg headers = Inr (p, ?w)"
    by (simp add: publish_open_sent)
  with a show "\<exists>w'. publish dumps encode p w msg headers = Inr (p, w') \<and>
            conn_is_open w' c \<and> chan_is_open w' ch \<and>
            trace w' = trace w @
              [BasicPublish ch (EXCHANGE p) (ROUTING_KEY p) (encode s)
                 (headers_or_empty headers),
               LogInfo ''message sent to queue'']"
    by (intro exI [of _ ?w]) (simp add: after_send_world, simp add: after_send_def)
next
  assume a: "conn p = Some c \<and> conn_is_open w c \<and> channel p = Some ch \<and>
             \<not> chan_is_open w ch \<and> dumps msg = Inr s"
  then have "\<not> no_open_conn p w"
    by (auto simp: open_conn_iff)
  with a show "publish dumps encode p w msg headers = Inl (ChannelWrongStateError, p, w)"
    by (simp add: publish_open_closed_channel)
next
  show "published (trace (snd (final_state (publish dumps encode p w msg headers))))
      = published (trace w) \<or>
    (\<exists>c1 ch1 body hdrs.
       conn (fst (final_state (publish dumps encode p w msg headers))) = Some c1 \<and>
       channel (fst (final_state (publish dumps encode p w msg headers))) = Some ch1 \<and>
       conn_is_open (snd (final_state (publish dumps encode p w msg headers))) c1 \<and>
       chan_is_open (snd (final_state (publish dumps encode p w msg headers))) ch1 \<and>
       published (trace (snd (final_state (publish dumps encode p w msg headers))))
         = published (trace w) @ [BasicPublish ch1 (EXCHANGE p) (ROUTING_KEY p) body hdrs])"
    by (rule publish_sent_live)
qed

theorem publish_on_live_connection_witness:
  "no_open_conn pub_ok world0 \<and> reachable world0 \<and> sample_dumps PyNone = Inr ''null'' \<and>
   conn pub_conn = Some 0 \<and> conn_is_open world_conn 0 \<and> channel pub_conn = Some 0 \<and>
   chan_is_open world_conn 0 \<and>
   (\<exists>w'. publish sample_dumps ascii_encode pub_ok world0 PyNone None = Inr (pub_conn, w') \<and>
         conn_is_open w' 0 \<and> chan_is_open w' 0 \<and>
         trace w' =
           [ConnectionOpened 0 (params pub_ok), ChannelOpened 0 0,
            ExchangeDeclared 0 ''robot-shop'' ''direct'' True,
            LogInfo ''connected to broker rabbitmq vhost=/'',
            BasicPublish 0 ''robot-shop'' ''orders'' ''null'' [],
            LogInfo ''message sent to queue'']) \<and>
   (\<exists>w'. publish sample_dumps ascii_encode pub_conn world_conn PyNone None
            = Inr (pub_conn, w') \<and>
         trace w' = trace world_conn @
           [BasicPublish 0 ''robot-shop'' ''orders'' ''null'' [],
            LogInfo ''message sent to queue''])"
proof -
  have a: "no_open_conn pub_ok world0" "reachable world0" "sample_dumps PyNone = Inr ''null''"
    by (simp_all add: no_open_conn_def pub_ok_def world0_def)
  have b: "conn pub_conn = Some 0" "conn_is_open world_conn 0" "channel pub_conn = Some 0"
    "chan_is_open world_conn 0"
    by (simp_all add: pub_conn_def world_conn_def conn_is_open_def chan_is_open_def)
  from publish_on_live_connection
    [where p = pub_ok and w = world0 and dumps = sample_dumps and msg = PyNone
       and s = "''null''" and encode = ascii_encode and headers = None] a
  have "\<exists>w'. publish sample_dumps ascii_encode pub_ok world0 PyNone None
           = Inr (pub_ok\<lparr>conn := Some (length (conns world0)),
                          channel := Some (length (chans world0))\<rparr>, w') \<and>
         conn_is_open w' (length (conns world0)) \<and> chan_is_open w' (length (chans world0)) \<and>
         trace w' = trace world0 @
           [ConnectionOpened (length (conns world0)) (params pub_ok),
            ChannelOpened (length (conns world0)) (length (chans world0)),
            ExchangeDeclared (length (chans world0)) (EXCHANGE pub_ok) (TYPE' pub_ok) True,
            LogInfo (''connected to broker '' @ HOST pub_ok @ '' vhost=''
                     @ VIRTUAL_HOST pub_ok),
            BasicPublish (length (chans world0)) (EXCHANGE pub_ok) (ROUTING_KEY pub_ok)
              (ascii_encode ''null'') (headers_or_empty None),
            LogInfo ''message sent to queue'']"
    by blast
  then have f: "\<exists>w'. publish sample_dumps ascii_encode pub_ok world0 PyNone None
           = Inr (pub_conn, w') \<and>
         conn_is_open w' 0 \<and> chan_is_open w' 0 \<and>
         trace w' =
           [ConnectionOpened 0 (params pub_ok), ChannelOpened 0 0,
            ExchangeDeclared 0 ''robot-shop'' ''direct'' True,
            LogInfo ''connected to broker rabbitmq vhost=/'',
            BasicPublish 0 ''robot-shop'' ''orders'' ''null'' [],
            LogInfo ''message sent to queue'']"
    by (simp add: world0_def pub_conn_def pub_ok_def ascii_encode_def headers_or_empty_def)
  from publish_on_live_connection
    [where p = pub_conn and w = world_conn and dumps = sample_dumps and msg = PyNone
       and s = "''null''" and c = 0 and ch = 0 and encode = ascii_encode and headers = None]
    a b
  have "\<exists>w'. publish sample_dumps ascii_encode pub_conn world_conn PyNone None
            = Inr (pub_conn, w') \<and>
         trace w' = trace world_conn @
           [BasicPublish 0 (EXCHANGE pub_conn) (ROUTING_KEY pub_conn) (ascii_encode ''null'')
              (headers_or_empty None),
            LogInfo ''message sent to queue'']"
    by blast
  then have g: "\<exists>w'. publish sample_dumps ascii_encode pub_conn world_conn PyNone None
            = Inr (pub_conn, w') \<and>
         trace w' = trace world_conn @
           [BasicPublish 0 ''robot-shop'' ''orders'' ''null'' [],
            LogInfo ''message sent to queue'']"
    by (simp add: pub_conn_def pub_ok_def ascii_encode_def headers_or_empty_def)
  from a b f g show ?thesis by simp
qed

text \<open>
  Claim C2 as stated fails. After a first publish the broker closes channel 0 and leaves
  connection 0 open. The next publish finds the connection open, opens nothing, and the
  call on the closed channel raises: no new connection and channel are established, and
  the message is not published.
\<close>

theorem publish_closed_channel_counterexample:
  "publish sample_dumps ascii_encode pub_ok world0 PyNone None = Inr (pub_conn, world_conn) \<and>
   channel_closed_by_broker 0 world_conn = world_chan_closed \<and>
   conn pub_conn = Some 0 \<and> conn_is_open world_chan_closed 0 \<and>
   channel pub_conn = Some 0 \<and> \<not> chan_is_open world_chan_closed 0 \<and>
   publish sample_dumps ascii_encode pub_conn world_chan_closed PyNone None
     = Inl (ChannelWrongStateError, pub_conn, world_chan_closed) \<and>
   connect_steps (trace world_chan_closed) = connect_steps (trace world_conn) \<and>
   published (trace world_chan_closed) = published (trace world_conn)"
proof -
  have a: "no_open_conn pub_ok world0" "reachable world0" "sample_dumps PyNone = Inr ''null''"
    by (simp_all add: no_open_conn_def pub_ok_def world0_def)
  have f: "publish sample_dumps ascii_encode pub_ok world0 PyNone None
             = Inr (pub_conn, world_conn)"
    using publish_fresh_sent [where dumps = sample_dumps and msg = PyNone
        and encode = ascii_encode and headers = None, OF a]
    by (simp add: after_connect_def after_send_def headers_or_empty_def ascii_encode_def
        pub_conn_def world_conn_def pub_ok_def world0_def)
  have b: "channel_closed_by_broker 0 world_conn = world_chan_closed"
    by (simp add: channel_closed_by_broker_def world_chan_closed_def world_conn_def)
  have c: "conn pub_conn = Some 0" "conn_is_open world_chan_closed 0"
    "channel pub_conn = Some 0" "\<not> chan_is_open world_chan_closed 0"
    by (simp_all add: pub_conn_def world_chan_closed_def world_conn_def conn_is_open_def
        chan_is_open_def)
  from c have o: "\<not> no_open_conn pub_conn world_chan_closed"
    by (simp add: open_conn_iff)
  have g: "publish sample_dumps ascii_encode pub_conn world_chan_closed PyNone None
     = Inl (ChannelWrongStateError, pub_conn, world_chan_closed)"
    using publish_open_closed_channel [where dumps = sample_dumps and msg = PyNone
        and encode = ascii_encode and headers = None, OF o c(3,4) a(3)] .
  have t: "trace world_chan_closed = trace world_conn"
    by (simp add: world_chan_closed_def)
  from f b c g t show ?thesis by simp
qed

lemma publish_twice_fresh:
  assumes "no_open_conn p w" and "reachable w" and "dumps m1 = Inr s1" and "dumps m2 = Inr s2"
  shows "publish dumps encode p w m1 h1 =
           Inr (fst (after_connect p w),
                after_send p (length (chans w)) (encode s1) (headers_or_empty h1)
                  (snd (after_connect p w))) \<and>
         publish dumps encode (fst (after_connect p w))
             (after_send p (length (chans w)) (encode s1) (headers_or_empty h1)
                (snd (after_connect p w))) m2 h2 =
           Inr (fst (after_connect p w),
                after_send p (length (chans w)) (encode s2) (headers_or_empty h2)
                  (after_send p (length (chans w)) (encode s1) (headers_or_empty h1)
                     (snd (after_connect p w))))"
proof -
  let ?p = "fst (after_connect p w)"
  let ?w = "after_send p (length (chans w)) (encode s1) (headers_or_empty h1)
              (snd (after_connect p w))"
  from assms have first: "publish dumps encode p w m1 h1 = Inr (?p, ?w)"
    by (simp add: publish_fresh_sent)
  have o: "\<not> no_open_conn ?p ?w"
    by (simp add: no_open_conn_after_send after_connect_open)
  have ch: "channel ?p = Some (length (chans w))"
    by (simp add: after_connect_fields)
  have co: "chan_is_open ?w (length (chans w))"
    by (simp add: after_send_world after_connect_world)
  from publish_open_sent [where dumps = dumps and msg = m2 and encode = encode
      and headers = h2, OF o ch co assms(4)]
  have "publish dumps encode ?p ?w m2 h2 =
          Inr (?p, after_send ?p (length (chans w)) (encode s2) (headers_or_empty h2) ?w)" .
  then have "publish dumps encode ?p ?w m2 h2 =
          Inr (?p, after_send p (length (chans w)) (encode s2) (headers_or_empty h2) ?w)"
    by (simp add: after_send_def after_connect_def)
  with first show ?thesis by simp
qed

lemma publish_twice_steps:
  "fst (final_state (publish dumps encode
          (fst (final_state (publish dumps encode p w m1 h1)))
          (snd (final_state (publish dumps encode p w m1 h1))) m2 h2))
     = fst (final_state (publish dumps encode p w m1 h1)) \<and>
   connect_steps (trace (snd (final_state (publish dumps encode
          (fst (final_state (publish dumps encode p w m1 h1)))
          (snd (final_state (publish dumps encode p w m1 h1))) m2 h2))))
     = connect_steps (trace (snd (final_state (publish dumps encode p w m1 h1)))) \<and>
   (connect_steps (trace (snd (final_state (publish dumps encode p w m1 h1))))
      = connect_steps (trace w) \<or>
    connect_steps (trace (snd (final_state (publish dumps encode p w m1 h1))))
      = connect_steps (trace w) @
          [ConnectionOpened (length (conns w)) (params p),
           ChannelOpened (length (conns w)) (length (chans w)),
           ExchangeDeclared (length (chans w)) (EXCHANGE p) (TYPE' p) True])"
proof (cases "no_open_conn p w")
  case False
  note one = publish_final_open [OF False, of dumps encode m1 h1]
  from one have "\<not> no_open_conn p (snd (final_state (publish dumps encode p w m1 h1)))"
    by simp
  note two = publish_final_open [OF this, of dumps encode m2 h2]
  from one two show ?thesis by simp
next
  case True
  show ?thesis
  proof (cases "reachable w")
    case False
    with True have "final_state (publish dumps encode p w m1 h1) = (p, w)"
      and "final_state (publish dumps encode p w m2 h2) = (p, w)"
      by (simp_all add: publish_final_refused)
    then show ?thesis by simp
  next
    case r: True
    note one = publish_final_fresh [OF True r, of dumps encode m1 h1]
    from one have "\<not> no_open_conn (fst (after_connect p w))
         (snd (final_state (publish dumps encode p w m1 h1)))"
      by simp
    note two = publish_final_open [OF this, of dumps encode m2 h2]
    from one two show ?thesis
      by (simp add: after_connect_world)
  qed
qed

subsection \<open>Publishing twice, and publishing after closing\<close>

text \<open>
  Claim C4. Two calls of \<open>publish\<close> in a row, the second on the state the first left: when
  the object holds no open connection and the broker accepts one, the first call performs
  one connect sequence and both messages go to the channel it opened; when connection and
  channel are open already, no connect sequence takes place and both messages go to that
  channel. In every case, whether the calls return or raise, the second call performs no
  connect step and leaves connection and channel of the object as the first left them,
  and the first performs no connect step or exactly one connect sequence. After \<open>close\<close>
  on an open connection, the next \<open>publish\<close> opens a new connection and a new channel and
  declares the exchange, once, and then sends the message.
\<close>

theorem publish_reuses_connection:
  "(no_open_conn p w \<and> reachable w \<and> dumps m1 = Inr s1 \<and> dumps m2 = Inr s2 \<longrightarrow>
      (\<exists>c' ch' w1 w2.
         c' = length (conns w) \<and> ch' = length (chans w) \<and>
         publish dumps encode p w m1 h1
           = Inr (p\<lparr>conn := Some c', channel := Some ch'\<rparr>, w1) \<and>
         publish dumps encode (p\<lparr>conn := Some c', channel := Some ch'\<rparr>) w1 m2 h2
           = Inr (p\<lparr>conn := Some c', channel := Some ch'\<rparr>, w2) \<and>
         connect_steps (trace w2) = connect_steps (trace w) @
           [ConnectionOpened c' (params p), ChannelOpened c' ch',
            ExchangeDeclared ch' (EXCHANGE p) (TYPE' p) True] \<and>
         published (trace w2) = published (trace w) @
           [BasicPublish ch' (EXCHANGE p) (ROUTING_KEY p) (encode s1) (headers_or_empty h1),
            BasicPublish ch' (EXCHANGE p) (ROUTING_KEY p) (encode s2) (headers_or_empty h2)])) \<and>
   (conn p = Some c \<and> conn_is_open w c \<and> channel p = Some ch \<and> chan_is_open w ch \<and>
    dumps m1 = Inr s1 \<and> dumps m2 = Inr s2 \<longrightarrow>
      (\<exists>w1 w2.
         publish dumps encode p w m1 h1 = Inr (p, w1) \<and>
         publish dumps encode p w1 m2 h2 = Inr (p, w2) \<and>
         connect_steps (trace w2) = connect_steps (trace w) \<and>
         published (trace w2) = published (trace w) @
           [BasicPublish ch (EXCHANGE p) (ROUTING_KEY p) (encode s1) (headers_or_empty h1),
            BasicPublish ch (EXCHANGE p) (ROUTING_KEY p) (encode s2) (headers_or_empty h2)])) \<and>
   (let st1 = final_state (publish dumps encode p w m1 h1);
        st2 = final_state (publish dumps encode (fst st1) (snd st1) m2 h2)
    in fst st2 = fst st1 \<and>
       connect_steps (trace (snd st2)) = connect_steps (trace (snd st1)) \<and>
       (connect_steps (trace (snd st1)) = connect_steps (trace w) \<or>
        connect_steps (trace (snd st1)) = connect_steps (trace w) @
          [ConnectionOpened (length (conns w)) (params p),
           ChannelOpened (length (conns w)) (length (chans w)),
           ExchangeDeclared (length (chans w)) (EXCHANGE p) (TYPE' p) True])) \<and>
   (conn p = Some c \<and> conn_is_open w c \<and> reachable w \<and> dumps m1 = Inr s1 \<longrightarrow>
      (\<exists>wc c' ch' w'.
         close p w = Inr (p, wc) \<and> conn_is_closed wc c \<and>
         c' = length (conns w) \<and> ch' = length (chans w) \<and>
         publish dumps encode p wc m1 h1
           = Inr (p\<lparr>conn := Some c', channel := Some ch'\<rparr>, w') \<and>
         c' \<noteq> c \<and> conn_is_open w' c' \<and> chan_is_open w' ch' \<and>
         trace w' = trace w @
           [ConnectionClosed c,
            ConnectionOpened c' (params p), ChannelOpened c' ch',
            ExchangeDeclared ch' (EXCHANGE p) (TYPE' p) True,
            LogInfo (''connected to broker '' @ HOST p @ '' vhost='' @ VIRTUAL_HOST p),
            BasicPublish ch' (EXCHANGE p) (ROUTING_KEY p) (encode s1) (headers_or_empty h1),
            LogInfo ''message sent to queue'']))"
proof -
  have fresh: "\<exists>c' ch' w1 w2.
         c' = length (conns w) \<and> ch' = length (chans w) \<and>
         publish dumps encode p w m1 h1
           = Inr (p\<lparr>conn := Some c', channel := Some ch'\<rparr>, w1) \<and>
         publish dumps encode (p\<lparr>conn := Some c', channel := Some ch'\<rparr>) w1 m2 h2
           = Inr (p\<lparr>conn := Some c', channel := Some ch'\<rparr>, w2) \<and>
         connect_steps (trace w2) = connect_steps (trace w) @
           [ConnectionOpened c' (params p), ChannelOpened c' ch',
            ExchangeDeclared ch' (EXCHANGE p) (TYPE' p) True] \<and>
         published (trace w2) = published (trace w) @
           [BasicPublish ch' (EXCHANGE p) (ROUTING_KEY p) (encode s1) (headers_or_empty h1),
            BasicPublish ch' (EXCHANGE p) (ROUTING_KEY p) (encode s2) (headers_or_empty h2)]"
    if a: "no_open_conn p w \<and> reachable w \<and> dumps m1 = Inr s1 \<and> dumps m2 = Inr s2"
  proof -
    let ?w1 = "after_send p (length (chans w)) (encode s1) (headers_or_empty h1)
                 (snd (after_connect p w))"
    let ?w2 = "after_send p (length (chans w)) (encode s2) (headers_or_empty h2) ?w1"
    have pp: "fst (after_connect p w)
                = p\<lparr>conn := Some (length (conns w)), channel := Some (length (chans w))\<rparr>"
      by (simp add: after_connect_def)
    from a have "no_open_conn p w" "reachable w" "dumps m1 = Inr s1" "dumps m2 = Inr s2"
      by simp_all
    from publish_twice_fresh [where dumps = dumps and ?m1.0 = m1 and ?m2.0 = m2
        and encode = encode and ?h1.0 = h1 and ?h2.0 = h2, OF this] pp
    show ?thesis
      by (intro exI [of _ "length (conns w)"] exI [of _ "length (chans w)"]
          exI [of _ ?w1] exI [of _ ?w2])
         (simp add: after_send_world after_connect_world)
  qed
  have opn: "\<exists>w1 w2.
         publish dumps encode p w m1 h1 = Inr (p, w1) \<and>
         publish dumps encode p w1 m2 h2 = Inr (p, w2) \<and>
         connect_steps (trace w2) = connect_steps (trace w) \<and>
         published (trace w2) = published (trace w) @
           [BasicPublish ch (EXCHANGE p) (ROUTING_KEY p) (encode s1) (headers_or_empty h1),
            BasicPublish ch (EXCHANGE p) (ROUTING_KEY p) (encode s2) (headers_or_empty h2)]"
    if a: "conn p = Some c \<and> conn_is_open w c \<and> channel p = Some ch \<and> chan_is_open w ch \<and>
           dumps m1 = Inr s1 \<and> dumps m2 = Inr s2"
  proof -
    let ?w1 = "after_send p ch (encode s1) (headers_or_empty h1) w"
    let ?w2 = "after_send p ch (encode s2) (headers_or_empty h2) ?w1"
    from a have o: "\<not> no_open_conn p w"
      by (auto simp: open_conn_iff)
    with a have one: "publish dumps encode p w m1 h1 = Inr (p, ?w1)"
      by (simp add: publish_open_sent)
    from o have o1: "\<not> no_open_conn p ?w1"
      by (simp add: no_open_conn_after_send)
    from a have "chan_is_open ?w1 ch"
      by (simp add: after_send_world)
    with o1 a have two: "publish dumps encode p ?w1 m2 h2 = Inr (p, ?w2)"
      by (simp add: publish_open_sent)
    from one two show ?thesis
      by (intro exI [of _ ?w1] exI [of _ ?w2]) (simp add: after_send_world)
  qed
  have reopen: "\<exists>wc c' ch' w'.
         close p w = Inr (p, wc) \<and> conn_is_closed wc c \<and>
         c' = length (conns w) \<and> ch' = length (chans w) \<and>
         publish dumps encode p wc m1 h1
           = Inr (p\<lparr>conn := Some c', channel := Some ch'\<rparr>, w') \<and>
         c' \<noteq> c \<and> conn_is_open w' c' \<and> chan_is_open w' ch' \<and>
         trace w' = trace w @
           [ConnectionClosed c,
            ConnectionOpened c' (params p), ChannelOpened c' ch',
            ExchangeDeclared ch' (EXCHANGE p) (TYPE' p) True,
            LogInfo (''connected to broker '' @ HOST p @ '' vhost='' @ VIRTUAL_HOST p),
            BasicPublish ch' (EXCHANGE p) (ROUTING_KEY p) (encode s1) (headers_or_empty h1),
            LogInfo ''message sent to queue'']"
    if a: "conn p = Some c \<and> conn_is_open w c \<and> reachable w \<and> dumps m1 = Inr s1"
  proof -
    let ?wc = "w\<lparr>conns := (conns w)[c := False],
                 chans := map (\<lambda>(c', opn). (c', opn \<and> c' \<noteq> c)) (chans w),
                 trace := trace w @ [ConnectionClosed c]\<rparr>"
    let ?w' = "after_send p (length (chans ?wc)) (encode s1) (headers_or_empty h1)
                 (snd (after_connect p ?wc))"
    from a have cl: "close p w = Inr (p, ?wc)"
      by (simp add: close_open)
    from a have lt: "c < length (conns w)"
      by (simp add: conn_is_open_def)
    have closed: "conn_is_closed ?wc c"
      by (simp add: conn_is_closed_def conn_is_open_def)
    with a have n: "no_open_conn p ?wc"
      by (simp add: no_open_conn_def)
    from a have r: "reachable ?wc"
      by simp
    from a have d: "dumps m1 = Inr s1"
      by simp
    from publish_fresh_sent [where dumps = dumps and msg = m1 and encode = encode
        and headers = h1, OF n r d]
    have "publish dumps encode p ?wc m1 h1 = Inr (fst (after_connect p ?wc), ?w')" .
    then have pb: "publish dumps encode p ?wc m1 h1 =
        Inr (p\<lparr>conn := Some (length (conns w)), channel := Some (length (chans w))\<rparr>, ?w')"
      by (simp add: after_connect_def)
    from lt have ne: "length (conns w) \<noteq> c"
      by simp
    have co: "conn_is_open ?w' (length (conns w))"
      by (simp add: after_connect_def after_send_def conn_is_open_def nth_append)
    have cho: "chan_is_open ?w' (length (chans w))"
      by (simp add: after_connect_def after_send_def chan_is_open_def nth_append)
    have tr: "trace ?w' = trace w @
           [ConnectionClosed c,
            ConnectionOpened (length (conns w)) (params p),
            ChannelOpened (length (conns w)) (length (chans w)),
            ExchangeDeclared (length (chans w)) (EXCHANGE p) (TYPE' p) True,
            LogInfo (''connected to broker '' @ HOST p @ '' vhost='' @ VIRTUAL_HOST p),
            BasicPublish (length (chans w)) (EXCHANGE p) (ROUTING_KEY p) (encode s1)
              (headers_or_empty h1),
            LogInfo ''message sent to queue'']"
      by (simp add: after_connect_def after_send_def)
    from cl closed pb ne co cho tr show ?thesis
      by blast
  qed
  from fresh opn reopen publish_twice_steps [of dumps encode p w m1 h1 m2 h2]
  show ?thesis
    unfolding Let_def by blast
qed

theorem publish_reuses_connection_witness:
  "no_open_conn pub_ok world0 \<and> reachable world0 \<and>
   sample_dumps PyNone = Inr ''null'' \<and> sample_dumps (PyBool True) = Inr ''true'' \<and>
   conn pub_conn = Some 0 \<and> conn_is_open world_conn 0 \<and> reachable world_conn \<and>
   (\<exists>w1 w2.
      publish sample_dumps ascii_encode pub_ok world0 PyNone None = Inr (pub_conn, w1) \<and>
      publish sample_dumps ascii_encode pub_conn w1 (PyBool True) None = Inr (pub_conn, w2) \<and>
      connect_steps (trace w2) =
        [ConnectionOpened 0 (params pub_ok), ChannelOpened 0 0,
         ExchangeDeclared 0 ''robot-shop'' ''direct'' True] \<and>
      published (trace w2) =
        [BasicPublish 0 ''robot-shop'' ''orders'' ''null'' [],
         BasicPublish 0 ''robot-shop'' ''orders'' ''true'' []]) \<and>
   close pub_conn world_conn = Inr (pub_conn, world_closed) \<and>
   (\<exists>w'. publish sample_dumps ascii_encode pub_conn world_closed PyNone None
            = Inr (pub_conn\<lparr>conn := Some 1, channel := Some 1\<rparr>, w') \<and>
         trace w' = trace world_conn @
           [ConnectionClosed 0,
            ConnectionOpened 1 (params pub_ok), ChannelOpened 1 1,
            ExchangeDeclared 1 ''robot-shop'' ''direct'' True,
            LogInfo ''connected to broker rabbitmq vhost=/'',
            BasicPublish 1 ''robot-shop'' ''orders'' ''null'' [],
            LogInfo ''message sent to queue''])"
proof -
  have a: "no_open_conn pub_ok world0" "reachable world0"
    "sample_dumps PyNone = Inr ''null''" "sample_dumps (PyBool True) = Inr ''true''"
    by (simp_all add: no_open_conn_def pub_ok_def world0_def)
  have b: "conn pub_conn = Some 0" "conn_is_open world_conn 0" "reachable world_conn"
    by (simp_all add: pub_conn_def world_conn_def conn_is_open_def)
  have cl: "close pub_conn world_conn = Inr (pub_conn, world_closed)"
    by (simp add: close_def conn_close_def pub_conn_def world_conn_def world_closed_def
        conn_is_open_def)
  from publish_reuses_connection
    [where p = pub_ok and w = world0 and dumps = sample_dumps and ?m1.0 = PyNone
       and ?s1.0 = "''null''" and ?m2.0 = "PyBool True" and ?s2.0 = "''true''"
       and encode = ascii_encode and ?h1.0 = None and ?h2.0 = None] a
  have "\<exists>w1 w2.
      publish sample_dumps ascii_encode pub_ok world0 PyNone None
        = Inr (pub_ok\<lparr>conn := Some (length (conns world0)),
                       channel := Some (length (chans world0))\<rparr>, w1) \<and>
      publish sample_dumps ascii_encode
          (pub_ok\<lparr>conn := Some (length (conns world0)),
                   channel := Some (length (chans world0))\<rparr>) w1 (PyBool True) None
        = Inr (pub_ok\<lparr>conn := Some (length (conns world0)),
                       channel := Some (length (chans world0))\<rparr>, w2) \<and>
      connect_steps (trace w2) = connect_steps (trace world0) @
        [ConnectionOpened (length (conns world0)) (params pub_ok),
         ChannelOpened (length (conns world0)) (length (chans world0)),
         ExchangeDeclared (length (chans world0)) (EXCHANGE pub_ok) (TYPE' pub_ok) True] \<and>
      published (trace w2) = published (trace world0) @
        [BasicPublish (length (chans world0)) (EXCHANGE pub_ok) (ROUTING_KEY pub_ok)
           (ascii_encode ''null'') (headers_or_empty None),
         BasicPublish (length (chans world0)) (EXCHANGE pub_ok) (ROUTING_KEY pub_ok)
           (ascii_encode ''true'') (headers_or_empty None)]"
    by blast
  then have f: "\<exists>w1 w2.
      publish sample_dumps ascii_encode pub_ok world0 PyNone None = Inr (pub_conn, w1) \<and>
      publish sample_dumps ascii_encode pub_conn w1 (PyBool True) None = Inr (pub_conn, w2) \<and>
      connect_steps (trace w2) =
        [ConnectionOpened 0 (params pub_ok), ChannelOpened 0 0,
         ExchangeDeclared 0 ''robot-shop'' ''direct'' True] \<and>
      published (trace w2) =
        [BasicPublish 0 ''robot-shop'' ''orders'' ''null'' [],
         BasicPublish 0 ''robot-shop'' ''orders'' ''true'' []]"
    by (simp add: world0_def pub_conn_def pub_ok_def ascii_encode_def headers_or_empty_def
        connect_steps_def published_def)
  from publish_reuses_connection
    [where p = pub_conn and w = world_conn and c = 0 and dumps = sample_dumps
       and ?m1.0 = PyNone and ?s1.0 = "''null''" and encode = ascii_encode
       and ?h1.0 = None] a b
  obtain wc w' where r:
    "close pub_conn world_conn = Inr (pub_conn, wc)"
    "publish sample_dumps ascii_encode pub_conn wc PyNone None
       = Inr (pub_conn\<lparr>conn := Some (length (conns world_conn)),
                         channel := Some (length (chans world_conn))\<rparr>, w')"
    "trace w' = trace world_conn @
       [ConnectionClosed 0,
        ConnectionOpened (length (conns world_conn)) (params pub_conn),
        ChannelOpened (length (conns world_conn)) (length (chans world_conn)),
        ExchangeDeclared (length (chans world_conn)) (EXCHANGE pub_conn) (TYPE' pub_conn) True,
        LogInfo (''connected to broker '' @ HOST pub_conn @ '' vhost=''
                 @ VIRTUAL_HOST pub_conn),
        BasicPublish (length (chans world_conn)) (EXCHANGE pub_conn) (ROUTING_KEY pub_conn)
          (ascii_encode ''null'') (headers_or_empty None),
        LogInfo ''message sent to queue'']"
    by blast
  from r(1) cl have "wc = world_closed"
    by simp
  with r(2,3) have g: "\<exists>w'. publish sample_dumps ascii_encode pub_conn world_closed PyNone None
            = Inr (pub_conn\<lparr>conn := Some 1, channel := Some 1\<rparr>, w') \<and>
         trace w' = trace world_conn @
           [ConnectionClosed 0,
            ConnectionOpened 1 (params pub_ok), ChannelOpened 1 1,
            ExchangeDeclared 1 ''robot-shop'' ''direct'' True,
            LogInfo ''connected to broker rabbitmq vhost=/'',
            BasicPublish 1 ''robot-shop'' ''orders'' ''null'' [],
            LogInfo ''message sent to queue'']"
    by (simp add: world_conn_def pub_conn_def pub_ok_def ascii_encode_def
        headers_or_empty_def)
  from a b f cl g show ?thesis by simp
qed

end
